theory Spec2Isabelle
  imports Complex_Main "HOL-Library.Word"
begin

section \<open>Data model\<close>

text \<open>
  The client of \<^verbatim>\<open>client.go\<close> talks to a node over JSON-RPC.  Hashes and addresses are
  hex strings (\<^verbatim>\<open>types.Hash\<close>, \<^verbatim>\<open>types.Address\<close>), \<^verbatim>\<open>*hexutil.Big\<close> and
  \<^verbatim>\<open>*big.Int\<close> are unbounded integers behind a pointer (\<open>None\<close> is the nil pointer),
  \<^verbatim>\<open>time.Duration\<close> counts nanoseconds, and a \<^verbatim>\<open>time.Time\<close> is an instant, counted
  in nanoseconds from a fixed origin.
\<close>

type_synonym Hash = string
type_synonym Address = string
type_synonym Duration = int
type_synonym Time = int

definition Millisecond :: Duration where
  "Millisecond = 1000000"

definition Second :: Duration where
  "Second = 1000 * Millisecond"

text \<open>
  \<^verbatim>\<open>types.UnsignedTransaction\<close>: the embedded \<^verbatim>\<open>UnsignedTransactionBase\<close> (the first
  eight fields) together with \<^verbatim>\<open>To\<close> and \<^verbatim>\<open>Data\<close>.
\<close>

record UnsignedTransaction =
  From :: "Address option"
  Nonce :: "int option"
  GasPrice :: "int option"
  Gas :: "int option"
  Value :: "int option"
  StorageLimit :: "int option"
  EpochHeight :: "int option"
  ChainID :: "int option"
  To :: "Address option"
  Data :: "8 word list"

text \<open>\<^verbatim>\<open>types.CallRequest\<close> (part_001, lines 34-43); the fields carry the prefix \<open>req\<close>.\<close>

record CallRequest =
  reqFrom :: "Address option"
  reqTo :: "Address option"
  reqGasPrice :: "int option"
  reqGas :: "int option"
  reqValue :: "int option"
  reqData :: string
  reqNonce :: "int option"
  reqStorageLimit :: "int option"

text \<open>
  \<^verbatim>\<open>types.ContractDeployOption\<close> (part_001, lines 11-16) embeds the base fields of a
  transaction; they carry the prefix \<open>base\<close> here.
\<close>

record UnsignedTransactionBase =
  baseFrom :: "Address option"
  baseNonce :: "int option"
  baseGasPrice :: "int option"
  baseGas :: "int option"
  baseValue :: "int option"
  baseStorageLimit :: "int option"
  baseEpochHeight :: "int option"
  baseChainID :: "int option"

record ContractDeployOption =
  optionBase :: UnsignedTransactionBase
  Timeout :: Duration

record Estimate =
  GasUsed :: "int option"
  StorageCollateralized :: "int option"

record Transaction =
  txHash :: Hash
  Status :: "int option"
  ContractCreated :: "Address option"

record BlockSummary =
  blockHash :: Hash
  EpochNumber :: "int option"

text \<open>
  The arguments of a remote call (\<^verbatim>\<open>...interface{}\<close>) and the decoded JSON value that
  comes back (\<^verbatim>\<open>interface{}\<close>).
\<close>

datatype arg =
    ArgHash Hash
  | ArgAddress Address
  | ArgBool bool
  | ArgString string
  | ArgEpoch string
  | ArgCallRequest CallRequest

datatype json =
    JNull
  | JString string
  | JEstimate Estimate
  | JTransaction Transaction
  | JBlockSummary BlockSummary
  | JOther string

text \<open>
  \<^verbatim>\<open>rpc.BatchElem\<close>.  \<^verbatim>\<open>Result\<close> is a pointer into one of the two slices that
  \<^verbatim>\<open>BatchGetBlockRevertRates\<close> allocates; its \<^verbatim>\<open>Error\<close> field is never read by
  \<^verbatim>\<open>client.go\<close> and is left out.
\<close>

datatype ptr = RisksAt nat | SummarysAt nat

record BatchElem =
  Method :: string
  Args :: "arg list"
  Result :: "ptr option"

definition zeroBatchElem :: BatchElem where
  "zeroBatchElem = \<lparr>Method = [], Args = [], Result = None\<rparr>"

definition zeroBlockSummary :: BlockSummary where
  "zeroBlockSummary = \<lparr>blockHash = [], EpochNumber = None\<rparr>"

definition zeroEstimate :: Estimate where
  "zeroEstimate = \<lparr>GasUsed = None, StorageCollateralized = None\<rparr>"

definition zeroTransaction :: Transaction where
  "zeroTransaction = \<lparr>txHash = [], Status = None, ContractCreated = None\<rparr>"

definition zeroUnsignedTransaction :: UnsignedTransaction where
  "zeroUnsignedTransaction =
     \<lparr>From = None, Nonce = None, GasPrice = None, Gas = None, Value = None,
      StorageLimit = None, EpochHeight = None, ChainID = None, To = None, Data = []\<rparr>"

subsection \<open>Errors and panics\<close>

text \<open>
  A message is the format string of \<^verbatim>\<open>fmt.Sprintf\<close> with the values it formats, kept
  unrendered.  \<^verbatim>\<open>errors.New\<close> and \<^verbatim>\<open>types.WrapError\<close> build errors; a run-time
  panic (nil dereference, index out of range, failed type assertion) is a failure of its
  own and never an error value.  Among the formatted values, \<open>VTime\<close> holds an instant
  (\<^verbatim>\<open>time.Time\<close>) and \<open>VDuration\<close> a span of time (\<^verbatim>\<open>time.Duration\<close>).
\<close>

datatype fmtval =
    VString string
  | VArgs "arg list"
  | VBatch "BatchElem list"
  | VTx UnsignedTransaction
  | VCallRequest CallRequest
  | VJson json
  | VBytes "8 word list"
  | VAddress "Address option"
  | VTime Time
  | VDuration Duration

datatype msg = Sprintf string "fmtval list"

datatype err = ErrorNew msg | WrapError err msg

datatype panic = NilDereference | IndexOutOfRange nat nat | TypeAssertion

datatype failure = Err err | Panic panic

type_synonym 'a res = "failure + 'a"

subsection \<open>The transport and its observable effects\<close>

text \<open>
  Everything the client does to the outside world is recorded in order: each remote
  call, each batch and each sleep.  The node is an oracle: the reply to the \<open>k\<close>-th
  request sent (counted from 0) may depend on \<open>k\<close> and on the request.  A batch reply
  holds, for every element, the value the transport decodes into the element's
  \<^verbatim>\<open>Result\<close> (\<open>None\<close> when the element got an error or no result).
\<close>

datatype event =
    CallEv string "arg list"
  | BatchEv "BatchElem list"
  | SleepEv Duration

type_synonym world = "event list"

definition requests :: "world \<Rightarrow> event list" where
  "requests w = filter (\<lambda>e. case e of SleepEv d \<Rightarrow> False | _ \<Rightarrow> True) w"

record transport =
  call_reply :: "nat \<Rightarrow> string \<Rightarrow> arg list \<Rightarrow> err + json"
  batch_reply :: "nat \<Rightarrow> BatchElem list \<Rightarrow> err option \<times> json option list"

definition inner_Call :: "transport \<Rightarrow> string \<Rightarrow> arg list \<Rightarrow> world \<Rightarrow> (err + json) \<times> world" where
  "inner_Call t method args w =
     (call_reply t (length (requests w)) method args, w @ [CallEv method args])"

definition inner_BatchCall ::
  "transport \<Rightarrow> BatchElem list \<Rightarrow> world \<Rightarrow> (err option \<times> json option list) \<times> world" where
  "inner_BatchCall t b w = (batch_reply t (length (requests w)) b, w @ [BatchEv b])"

definition Sleep :: "Duration \<Rightarrow> world \<Rightarrow> world" where
  "Sleep d w = w @ [SleepEv d]"

section \<open>The retrying transport\<close>

text \<open>
  \<^verbatim>\<open>rpcClientWithRetry\<close> (client.go, lines 73-133).  \<^verbatim>\<open>retryCount\<close> is a Go
  \<^verbatim>\<open>int\<close>, 64 bits wide on the usual platforms: \<^verbatim>\<open>remain--\<close> wraps, and
  \<^verbatim>\<open>r.retryCount <= 0\<close> compares signed values.
\<close>

record rpcClientWithRetry =
  inner :: transport
  retryCount :: "64 word"
  interval :: Duration

function Call_loop ::
  "rpcClientWithRetry \<Rightarrow> string \<Rightarrow> arg list \<Rightarrow> 64 word \<Rightarrow> world \<Rightarrow> (err + json) \<times> world" where
  "Call_loop r method args remain w =
     (case inner_Call (inner r) method args w of
        (Inr v, w1) \<Rightarrow> (Inr v, w1)
      | (Inl e, w1) \<Rightarrow>
          (if remain - 1 = 0
           then (Inl (WrapError e
                   (Sprintf ''timeout when call %v with args %v'' [VString method, VArgs args])), w1)
           else Call_loop r method args (remain - 1)
                  (if 0 < interval r then Sleep (interval r) w1 else w1)))"
  by pat_completeness auto
termination
proof -
  have dec: "unat (x - 2) < unat (x - 1)" if "x \<noteq> 1" for x :: "64 word"
  proof -
    from that have nz: "x - 1 \<noteq> 0" by simp
    then have "unat (x - 1 - 1) = unat (x - 1) - 1" by (rule unat_minus_one)
    moreover from nz have "0 < unat (x - 1)" by (simp add: unat_gt_0)
    moreover have "x - 1 - 1 = x - 2" by simp
    ultimately show ?thesis by simp
  qed
  show ?thesis
    by (relation "measure (\<lambda>(r, method, args, remain, w). unat (remain - 1))")
       (auto simp: dec)
qed

definition Call :: "rpcClientWithRetry \<Rightarrow> string \<Rightarrow> arg list \<Rightarrow> world \<Rightarrow> (err + json) \<times> world" where
  "Call r method args w =
     (case inner_Call (inner r) method args w of
        (Inr v, w1) \<Rightarrow> (Inr v, w1)
      | (Inl e, w1) \<Rightarrow>
          (if sint (retryCount r) \<le> 0 then (Inl e, w1)
           else Call_loop r method args (retryCount r) w1))"

text \<open>
  \<^verbatim>\<open>BatchCall\<close> hands the same slice \<open>b\<close> to every attempt, and every attempt may
  decode values into the elements' \<^verbatim>\<open>Result\<close>: the replies of all attempts are
  returned in the order they were received.
\<close>

function BatchCall_loop ::
  "rpcClientWithRetry \<Rightarrow> BatchElem list \<Rightarrow> 64 word \<Rightarrow> json option list list \<Rightarrow> world
     \<Rightarrow> (err option \<times> json option list list) \<times> world" where
  "BatchCall_loop r b remain written w =
     (case inner_BatchCall (inner r) b w of
        ((None, vs), w1) \<Rightarrow> ((None, written @ [vs]), w1)
      | ((Some e, vs), w1) \<Rightarrow>
          (if remain - 1 = 0
           then ((Some (WrapError e (Sprintf ''timeout when batch call %+v'' [VBatch b])),
                  written @ [vs]), w1)
           else BatchCall_loop r b (remain - 1) (written @ [vs])
                  (if 0 < interval r then Sleep (interval r) w1 else w1)))"
  by pat_completeness auto
termination
proof -
  have dec: "unat (x - 2) < unat (x - 1)" if "x \<noteq> 1" for x :: "64 word"
  proof -
    from that have nz: "x - 1 \<noteq> 0" by simp
    then have "unat (x - 1 - 1) = unat (x - 1) - 1" by (rule unat_minus_one)
    moreover from nz have "0 < unat (x - 1)" by (simp add: unat_gt_0)
    moreover have "x - 1 - 1 = x - 2" by simp
    ultimately show ?thesis by simp
  qed
  show ?thesis
    by (relation "measure (\<lambda>(r, b, remain, written, w). unat (remain - 1))")
       (auto simp: dec)
qed

definition BatchCall ::
  "rpcClientWithRetry \<Rightarrow> BatchElem list \<Rightarrow> world
     \<Rightarrow> (err option \<times> json option list list) \<times> world" where
  "BatchCall r b w =
     (case inner_BatchCall (inner r) b w of
        ((None, vs), w1) \<Rightarrow> ((None, [vs]), w1)
      | ((Some e, vs), w1) \<Rightarrow>
          (if sint (retryCount r) \<le> 0 then ((Some e, [vs]), w1)
           else BatchCall_loop r b (retryCount r) [vs] w1))"

declare Call_loop.simps [simp del] BatchCall_loop.simps [simp del]

text \<open>
  \<^verbatim>\<open>Client.rpcRequester\<close> is an interface value: \<^verbatim>\<open>NewClientWithRetry\<close> stores the
  plain \<^verbatim>\<open>*rpc.Client\<close> for a retry count of 0 and the retrying wrapper otherwise
  (lines 48-61).
\<close>

datatype rpcRequester = Direct transport | WithRetry rpcClientWithRetry

definition NewRequester :: "transport \<Rightarrow> 64 word \<Rightarrow> Duration \<Rightarrow> rpcRequester" where
  "NewRequester rpcClient retryCount' retryInterval =
     (if retryCount' = 0 then Direct rpcClient
      else WithRetry \<lparr>inner = rpcClient, retryCount = retryCount',
             interval = (if retryInterval = 0 then Second else retryInterval)\<rparr>)"

definition requester_Call ::
  "rpcRequester \<Rightarrow> string \<Rightarrow> arg list \<Rightarrow> world \<Rightarrow> (err + json) \<times> world" where
  "requester_Call q method args w =
     (case q of Direct t \<Rightarrow> inner_Call t method args w | WithRetry r \<Rightarrow> Call r method args w)"

definition requester_BatchCall ::
  "rpcRequester \<Rightarrow> BatchElem list \<Rightarrow> world \<Rightarrow> (err option \<times> json option list list) \<times> world" where
  "requester_BatchCall q b w =
     (case q of
        Direct t \<Rightarrow> (case inner_BatchCall t b w of ((e, vs), w1) \<Rightarrow> ((e, [vs]), w1))
      | WithRetry r \<Rightarrow> BatchCall r b w)"

section \<open>Library functions the client calls\<close>

text \<open>
  \<^verbatim>\<open>hexutil.DecodeBig\<close> and \<^verbatim>\<open>hexutil.EncodeBig\<close> (go-ethereum),
  \<^verbatim>\<open>hex.EncodeToString\<close> and \<^verbatim>\<open>big.Int.String\<close> (Go's standard library): quantities
  on the wire are \<^verbatim>\<open>0x\<close>-prefixed hexadecimal numerals without leading zeros, of
  at most 256 bits.
\<close>

definition hexdigit :: "nat \<Rightarrow> char" where
  "hexdigit n = ''0123456789abcdef'' ! n"

function hexText :: "nat \<Rightarrow> string" where
  "hexText n = (if n < 16 then [hexdigit n] else hexText (n div 16) @ [hexdigit (n mod 16)])"
  by pat_completeness auto
termination
  by (relation "measure id") auto

function decimalText :: "nat \<Rightarrow> string" where
  "decimalText n = (if n < 10 then [hexdigit n] else decimalText (n div 10) @ [hexdigit (n mod 10)])"
  by pat_completeness auto
termination
  by (relation "measure id") auto

declare hexText.simps [simp del] decimalText.simps [simp del]

definition BigString :: "int \<Rightarrow> string" where
  "BigString x = (if x < 0 then CHR ''-'' # decimalText (nat (- x)) else decimalText (nat x))"

definition EncodeBig :: "int \<Rightarrow> string" where
  "EncodeBig bigint =
     (if bigint = 0 then ''0x0''
      else if 0 < bigint then ''0x'' @ hexText (nat bigint)
      else ''-0x'' @ hexText (nat (- bigint)))"

definition EncodeToString :: "8 word list \<Rightarrow> string" where
  "EncodeToString bs = concat (map (\<lambda>b. [hexdigit (unat b div 16), hexdigit (unat b mod 16)]) bs)"

definition decodeNibble :: "char \<Rightarrow> nat option" where
  "decodeNibble c =
     (let n = (of_char c :: nat) in
      if 48 \<le> n \<and> n \<le> 57 then Some (n - 48)
      else if 65 \<le> n \<and> n \<le> 70 then Some (n - 55)
      else if 97 \<le> n \<and> n \<le> 102 then Some (n - 87)
      else None)"

fun hexValue :: "nat \<Rightarrow> string \<Rightarrow> nat option" where
  "hexValue acc [] = Some acc"
| "hexValue acc (c # cs) =
     (case decodeNibble c of None \<Rightarrow> None | Some d \<Rightarrow> hexValue (16 * acc + d) cs)"

definition has0xPrefix :: "string \<Rightarrow> bool" where
  "has0xPrefix input =
     (2 \<le> length input \<and> input ! 0 = CHR ''0'' \<and> (input ! 1 = CHR ''x'' \<or> input ! 1 = CHR ''X''))"

definition checkNumber :: "string \<Rightarrow> err + string" where
  "checkNumber input =
     (if length input = 0 then Inl (ErrorNew (Sprintf ''empty hex string'' []))
      else if \<not> has0xPrefix input then Inl (ErrorNew (Sprintf ''hex string without 0x prefix'' []))
      else if length (drop 2 input) = 0 then Inl (ErrorNew (Sprintf ''hex string \"0x\"'' []))
      else if 1 < length (drop 2 input) \<and> drop 2 input ! 0 = CHR ''0''
        then Inl (ErrorNew (Sprintf ''hex number with leading zero digits'' []))
      else Inr (drop 2 input))"

definition DecodeBig :: "string \<Rightarrow> err + int" where
  "DecodeBig input =
     (case checkNumber input of
        Inl e \<Rightarrow> Inl e
      | Inr raw \<Rightarrow>
          (if 64 < length raw then Inl (ErrorNew (Sprintf ''hex number > 256 bits'' []))
           else (case hexValue 0 raw of
                   None \<Rightarrow> Inl (ErrorNew (Sprintf ''invalid hex string'' []))
                 | Some n \<Rightarrow> Inr (int n))))"

text \<open>
  \<^verbatim>\<open>unmarshalRPCResult\<close> (lines 974-987) re-encodes the reply and decodes it into the
  target.  A reply \<open>JEstimate e\<close> stands for any JSON value that decodes into \<open>e\<close>, and
  likewise for the other records; JSON \<^verbatim>\<open>null\<close> decodes into every target and leaves
  it at its zero value; a reply of another shape is taken to fail decoding.
\<close>

definition unmarshalError :: "json \<Rightarrow> err" where
  "unmarshalError result =
     WrapError (ErrorNew (Sprintf ''json: cannot unmarshal'' []))
       (Sprintf ''json unmarshal %v error'' [VJson result])"

definition unmarshalEstimate :: "json \<Rightarrow> err + Estimate" where
  "unmarshalEstimate result =
     (case result of
        JEstimate e \<Rightarrow> Inr e
      | JNull \<Rightarrow> Inr zeroEstimate
      | _ \<Rightarrow> Inl (unmarshalError result))"

definition unmarshalTransaction :: "json \<Rightarrow> err + Transaction" where
  "unmarshalTransaction result =
     (case result of
        JTransaction t \<Rightarrow> Inr t
      | JNull \<Rightarrow> Inr zeroTransaction
      | _ \<Rightarrow> Inl (unmarshalError result))"

section \<open>The client and its chain queries\<close>

text \<open>
  \<^verbatim>\<open>AccountManagerOperator\<close> is an interface of the key store.  \<open>GetDefault\<close> is what
  its method returns: an error, or a possibly nil address.
\<close>

record AccountManagerOperator =
  GetDefault :: "err + Address option"
  SignTransaction :: "UnsignedTransaction \<Rightarrow> err + 8 word list"

record Client =
  nodeURL :: string
  rpcRequester :: rpcRequester
  accountManager :: "AccountManagerOperator option"

text \<open>
  Two parts of the repository are used by \<^verbatim>\<open>ApplyUnsignedTransactionDefault\<close> and lie
  outside the given sources: the constant \<^verbatim>\<open>constants.MinGasprice\<close> and the method
  \<^verbatim>\<open>UnsignedTransaction.ApplyDefault\<close>.  Both are parameters of the model.
\<close>

record externals =
  MinGasprice :: int
  ApplyDefault :: "UnsignedTransaction \<Rightarrow> UnsignedTransaction"

definition EpochLatestState :: arg where
  "EpochLatestState = ArgEpoch ''latest_state''"

definition assertString :: "json \<Rightarrow> string res" where
  "assertString result = (case result of JString s \<Rightarrow> Inr s | _ \<Rightarrow> Inl (Panic TypeAssertion))"

definition decodeBigResult :: "json \<Rightarrow> int res" where
  "decodeBigResult result =
     (case assertString result of
        Inl f \<Rightarrow> Inl f
      | Inr s \<Rightarrow> (case DecodeBig s of Inl e \<Rightarrow> Inl (Err e) | Inr n \<Rightarrow> Inr n))"

text \<open>\<^verbatim>\<open>GetGasPrice\<close>, lines 164-173.\<close>

definition GetGasPrice :: "Client \<Rightarrow> world \<Rightarrow> int res \<times> world" where
  "GetGasPrice client w =
     (case requester_Call (rpcRequester client) ''cfx_gasPrice'' [] w of
        (Inl e, w1) \<Rightarrow> (Inl (Err (WrapError e (Sprintf ''rpc request cfx_gasPrice error'' []))), w1)
      | (Inr result, w1) \<Rightarrow> (decodeBigResult result, w1))"

text \<open>\<^verbatim>\<open>GetNextNonce\<close>, lines 176-198.\<close>

definition GetNextNonce :: "Client \<Rightarrow> Address \<Rightarrow> arg option \<Rightarrow> world \<Rightarrow> int res \<times> world" where
  "GetNextNonce client address epoch w =
     (let args = [ArgAddress address] @ (case epoch of None \<Rightarrow> [] | Some ep \<Rightarrow> [ep]) in
      case requester_Call (rpcRequester client) ''cfx_getNextNonce'' args w of
        (Inl e, w1) \<Rightarrow>
          (Inl (Err (WrapError e
             (Sprintf ''rpc request cfx_getNextNonce %+v error'' [VString address]))), w1)
      | (Inr result, w1) \<Rightarrow> (decodeBigResult result, w1))"

text \<open>\<^verbatim>\<open>GetEpochNumber\<close>, lines 201-215; the variadic parameter is a list.\<close>

definition GetEpochNumber :: "Client \<Rightarrow> arg list \<Rightarrow> world \<Rightarrow> int res \<times> world" where
  "GetEpochNumber client epoch w =
     (let args = (if 0 < length epoch then [epoch ! 0] else []) in
      case requester_Call (rpcRequester client) ''cfx_epochNumber'' args w of
        (Inl e, w1) \<Rightarrow>
          (Inl (Err (WrapError e (Sprintf ''rpc cfx_epochNumber %+v error'' [VArgs args]))), w1)
      | (Inr result, w1) \<Rightarrow> (decodeBigResult result, w1))"

text \<open>\<^verbatim>\<open>EstimateGasAndCollateral\<close>, lines 578-594.\<close>

definition EstimateGasAndCollateral :: "Client \<Rightarrow> CallRequest \<Rightarrow> world \<Rightarrow> Estimate res \<times> world" where
  "EstimateGasAndCollateral client request w =
     (let args = [ArgCallRequest request] in
      case requester_Call (rpcRequester client) ''cfx_estimateGasAndCollateral'' args w of
        (Inl e, w1) \<Rightarrow>
          (Inl (Err (WrapError e
             (Sprintf ''rpc cfx_estimateGasAndCollateral of {%+v} error'' [VArgs args]))), w1)
      | (Inr result, w1) \<Rightarrow>
          (case unmarshalEstimate result of
             Inl e \<Rightarrow> (Inl (Err (WrapError e (Sprintf ''UnmarshalRPCResult %+v error'' [VJson result]))), w1)
           | Inr estimate \<Rightarrow> (Inr estimate, w1)))"

text \<open>
  \<^verbatim>\<open>GetTransactionByHash\<close>, lines 555-574: \<open>Inr None\<close> is the pair \<^verbatim>\<open>(nil, nil)\<close>
  returned when the node knows no such transaction.
\<close>

definition GetTransactionByHash :: "Client \<Rightarrow> Hash \<Rightarrow> world \<Rightarrow> Transaction option res \<times> world" where
  "GetTransactionByHash client txHash' w =
     (case requester_Call (rpcRequester client) ''cfx_getTransactionByHash'' [ArgHash txHash'] w of
        (Inl e, w1) \<Rightarrow>
          (Inl (Err (WrapError e
             (Sprintf ''rpc cfx_getTransactionByHash {%+v} error'' [VString txHash']))), w1)
      | (Inr result, w1) \<Rightarrow>
          (if result = JNull then (Inr None, w1)
           else (case unmarshalTransaction result of
                   Inl e \<Rightarrow>
                     (Inl (Err (WrapError e (Sprintf ''UnmarshalRPCResult %+v error'' [VJson result]))), w1)
                 | Inr tx \<Rightarrow> (Inr (Some tx), w1))))"

section \<open>Transaction default resolution\<close>

text \<open>\<^verbatim>\<open>CallRequest.FillByUnsignedTx\<close>, part_001 lines 46-65.\<close>

definition zeroCallRequest :: CallRequest where
  "zeroCallRequest =
     \<lparr>reqFrom = None, reqTo = None, reqGasPrice = None, reqGas = None, reqValue = None,
      reqData = [], reqNonce = None, reqStorageLimit = None\<rparr>"

definition FillByUnsignedTx :: "CallRequest \<Rightarrow> UnsignedTransaction option \<Rightarrow> CallRequest" where
  "FillByUnsignedTx request tx' =
     (case tx' of
        None \<Rightarrow> request
      | Some tx \<Rightarrow>
          (let r1 = request\<lparr>reqFrom := From tx, reqTo := To tx, reqGasPrice := GasPrice tx,
                            reqValue := Value tx, reqStorageLimit := StorageLimit tx\<rparr>;
               r2 = (if Gas tx \<noteq> None then r1\<lparr>reqGas := Gas tx\<rparr> else r1);
               r3 = r2\<lparr>reqData := ''0x'' @ EncodeToString (Data tx)\<rparr>
           in if Nonce tx \<noteq> None then r3\<lparr>reqNonce := Nonce tx\<rparr> else r3))"

text \<open>
  \<^verbatim>\<open>ApplyUnsignedTransactionDefault\<close>, lines 656-731.  The transaction is mutated in
  place, so every exit returns the transaction as it stands, the effects so far, and the
  failure, if any.  The five blocks of the body are written one by one, in the order of
  the source.
\<close>

type_synonym resolution = "failure option \<times> UnsignedTransaction \<times> world"

text \<open>Lines 659-671.\<close>

definition resolveFrom :: "Client \<Rightarrow> UnsignedTransaction \<Rightarrow> world \<Rightarrow> resolution" where
  "resolveFrom client tx w =
     (if From tx = None then
        (case accountManager client of
           Some am \<Rightarrow>
             (case GetDefault am of
                Inl e \<Rightarrow> (Some (Err (WrapError e (Sprintf ''get default account error'' []))), tx, w)
              | Inr defaultAccount \<Rightarrow>
                  (if defaultAccount = None
                   then (Some (Err (ErrorNew (Sprintf ''no account exist in keystore directory'' []))), tx, w)
                   else (None, tx\<lparr>From := defaultAccount\<rparr>, w)))
         | None \<Rightarrow> (None, tx, w))
      else (None, tx, w))"

text \<open>Lines 673-681; \<^verbatim>\<open>*tx.From\<close> dereferences the pointer.\<close>

definition resolveNonce :: "Client \<Rightarrow> UnsignedTransaction \<Rightarrow> world \<Rightarrow> resolution" where
  "resolveNonce client tx w =
     (if Nonce tx = None then
        (case From tx of
           None \<Rightarrow> (Some (Panic NilDereference), tx, w)
         | Some from \<Rightarrow>
             (case GetNextNonce client from None w of
                (Inl (Err e), w1) \<Rightarrow>
                  (Some (Err (WrapError e (Sprintf ''get nonce of {%+v} error'' [VAddress (From tx)]))), tx, w1)
              | (Inl (Panic p), w1) \<Rightarrow> (Some (Panic p), tx, w1)
              | (Inr nonce, w1) \<Rightarrow> (None, tx\<lparr>Nonce := Some nonce\<rparr>, w1)))
      else (None, tx, w))"

text \<open>Lines 683-696; \<^verbatim>\<open>gasPrice.Cmp(min) < 1\<close> holds when the price is at most the minimum.\<close>

definition resolveGasPrice :: "externals \<Rightarrow> Client \<Rightarrow> UnsignedTransaction \<Rightarrow> world \<Rightarrow> resolution" where
  "resolveGasPrice ext client tx w =
     (if GasPrice tx = None then
        (case GetGasPrice client w of
           (Inl (Err e), w1) \<Rightarrow> (Some (Err (WrapError e (Sprintf ''get gas price error'' []))), tx, w1)
         | (Inl (Panic p), w1) \<Rightarrow> (Some (Panic p), tx, w1)
         | (Inr gasPrice, w1) \<Rightarrow>
             (let gasPrice' = (if gasPrice \<le> MinGasprice ext then MinGasprice ext else gasPrice)
              in (None, tx\<lparr>GasPrice := Some gasPrice'\<rparr>, w1)))
      else (None, tx, w))"

text \<open>Lines 698-705.\<close>

definition resolveEpochHeight :: "Client \<Rightarrow> UnsignedTransaction \<Rightarrow> world \<Rightarrow> resolution" where
  "resolveEpochHeight client tx w =
     (if EpochHeight tx = None then
        (case GetEpochNumber client [EpochLatestState] w of
           (Inl (Err e), w1) \<Rightarrow>
             (Some (Err (WrapError e
                (Sprintf ''get epoch number of {%+v} error'' [VArgs [EpochLatestState]]))), tx, w1)
         | (Inl (Panic p), w1) \<Rightarrow> (Some (Panic p), tx, w1)
         | (Inr epoch, w1) \<Rightarrow> (None, tx\<lparr>EpochHeight := Some epoch\<rparr>, w1))
      else (None, tx, w))"

text \<open>Lines 707-725.\<close>

definition resolveGasAndStorage :: "Client \<Rightarrow> UnsignedTransaction \<Rightarrow> world \<Rightarrow> resolution" where
  "resolveGasAndStorage client tx w =
     (if StorageLimit tx = None \<or> Gas tx = None then
        (let callReq = FillByUnsignedTx zeroCallRequest (Some tx) in
         case EstimateGasAndCollateral client callReq w of
           (Inl (Err e), w1) \<Rightarrow>
             (Some (Err (WrapError e
                (Sprintf ''get estimate gas and collateral by {%+v} error'' [VCallRequest callReq]))), tx, w1)
         | (Inl (Panic p), w1) \<Rightarrow> (Some (Panic p), tx, w1)
         | (Inr sm, w1) \<Rightarrow>
             (let tx1 = (if Gas tx = None then tx\<lparr>Gas := GasUsed sm\<rparr> else tx);
                  tx2 = (if StorageLimit tx1 = None
                         then tx1\<lparr>StorageLimit := StorageCollateralized sm\<rparr> else tx1)
              in (None, tx2, w1)))
      else (None, tx, w))"

definition andThen :: "resolution \<Rightarrow> (UnsignedTransaction \<Rightarrow> world \<Rightarrow> resolution) \<Rightarrow> resolution" where
  "andThen r k = (case r of (Some f, tx, w) \<Rightarrow> (Some f, tx, w) | (None, tx, w) \<Rightarrow> k tx w)"

text \<open>Lines 659-725: the five blocks in sequence, each exit ending the function.\<close>

definition resolveFields ::
  "externals \<Rightarrow> Client \<Rightarrow> UnsignedTransaction \<Rightarrow> world \<Rightarrow> resolution" where
  "resolveFields ext client tx w =
     andThen (resolveFrom client tx w) (\<lambda>tx w.
     andThen (resolveNonce client tx w) (\<lambda>tx w.
     andThen (resolveGasPrice ext client tx w) (\<lambda>tx w.
     andThen (resolveEpochHeight client tx w) (\<lambda>tx w.
     resolveGasAndStorage client tx w))))"

definition ApplyUnsignedTransactionDefault ::
  "externals \<Rightarrow> Client option \<Rightarrow> UnsignedTransaction \<Rightarrow> world \<Rightarrow> resolution" where
  "ApplyUnsignedTransactionDefault ext client' tx w =
     (case client' of
        None \<Rightarrow> (None, tx, w)
      | Some client \<Rightarrow>
          andThen (resolveFields ext client tx w) (\<lambda>tx w. (None, ApplyDefault ext tx, w)))"

section \<open>Batch revert-risk calculation\<close>

text \<open>
  Modelled from the spec: \<^verbatim>\<open>constants.MaxUint256\<close> and \<^verbatim>\<open>utils.CalcBlockRevertRate\<close>
  are not among the given sources.  The spec gives the largest risk value as \<open>2^256 - 1\<close>
  and the rate as the risk divided by it; \<^verbatim>\<open>GetBlockRevertRateByHash\<close> (lines 396-399)
  computes the same quotient.  The quotient is taken exactly here; the two values the
  fallback can produce, 0 and the largest risk, have the exact rates 0 and 1 in
  \<^verbatim>\<open>big.Float\<close> as well.
\<close>

definition MaxUint256 :: int where
  "MaxUint256 = 2 ^ 256 - 1"

definition CalcBlockRevertRate :: "int \<Rightarrow> rat" where
  "CalcBlockRevertRate confirmRisk = of_int confirmRisk / of_int MaxUint256"

text \<open>
  The two slices the batch elements point into.  Decoding a reply through a
  \<^verbatim>\<open>Result\<close> pointer stores a string in \<open>risks\<close> or a block summary in \<open>summarys\<close>;
  a nil pointer, a missing reply or a reply of the wrong shape stores nothing.
\<close>

record memory =
  risks :: "string list"
  summarys :: "BlockSummary list"

fun store :: "ptr option \<Rightarrow> json option \<Rightarrow> memory \<Rightarrow> memory" where
  "store (Some (RisksAt i)) (Some (JString v)) m = m\<lparr>risks := (risks m)[i := v]\<rparr>"
| "store (Some (SummarysAt i)) (Some (JBlockSummary v)) m = m\<lparr>summarys := (summarys m)[i := v]\<rparr>"
| "store p v m = m"

fun writeResults :: "BatchElem list \<Rightarrow> json option list \<Rightarrow> memory \<Rightarrow> memory" where
  "writeResults (be # b) (v # vs) m = writeResults b vs (store (Result be) v m)"
| "writeResults b vs m = m"

text \<open>\<^verbatim>\<open>BatchCallRPC\<close>, lines 154-156, with the stores of every attempt applied in order.\<close>

definition BatchCallRPC ::
  "Client \<Rightarrow> BatchElem list \<Rightarrow> memory \<Rightarrow> world \<Rightarrow> err option \<times> memory \<times> world" where
  "BatchCallRPC client b m w =
     (case requester_BatchCall (rpcRequester client) b w of
        ((e, written), w1) \<Rightarrow> (e, foldl (\<lambda>m' vs. writeResults b vs m') m written, w1))"

text \<open>Lines 890-902: one step of the loop, for position \<open>i\<close>.\<close>

definition riskElem :: "Hash \<Rightarrow> nat \<Rightarrow> BatchElem" where
  "riskElem h i =
     \<lparr>Method = ''cfx_getConfirmationRiskByHash'', Args = [ArgHash h], Result = Some (RisksAt i)\<rparr>"

definition riskStep ::
  "Hash option list \<Rightarrow> BatchElem list \<times> string list \<Rightarrow> nat \<Rightarrow> BatchElem list \<times> string list" where
  "riskStep blockhashs st i =
     (case st of (bElems, risks') \<Rightarrow>
        (case blockhashs ! i of
           None \<Rightarrow> (bElems, risks'[i := EncodeBig MaxUint256])
         | Some h \<Rightarrow> (bElems @ [riskElem h i], risks')))"

text \<open>
  Lines 912-920.  \<open>indexMap\<close> is a Go map whose missing keys read as the nil slice;
  \<^verbatim>\<open>*blockhashs[i]\<close> dereferences the pointer.
\<close>

fun collectNoRisk ::
  "Hash option list \<Rightarrow> string list \<Rightarrow> nat list \<Rightarrow> Hash option list \<times> (Hash \<Rightarrow> nat list)
     \<Rightarrow> (Hash option list \<times> (Hash \<Rightarrow> nat list)) res" where
  "collectNoRisk blockhashs risks' [] st = Inr st"
| "collectNoRisk blockhashs risks' (i # is) (noRiskBlockhashs, indexMap) =
     (if length (risks' ! i) = 0 then
        (case blockhashs ! i of
           None \<Rightarrow> Inl (Panic NilDereference)
         | Some h \<Rightarrow>
             collectNoRisk blockhashs risks' is
               (noRiskBlockhashs @ [blockhashs ! i], indexMap(h := indexMap h @ [i])))
      else collectNoRisk blockhashs risks' is (noRiskBlockhashs, indexMap))"

text \<open>Lines 927-934: the elements are appended to a slice that already has a length.\<close>

definition summaryElem :: "Hash \<Rightarrow> nat \<Rightarrow> BatchElem" where
  "summaryElem h i =
     \<lparr>Method = ''cfx_getBlockByHash'', Args = [ArgHash h, ArgBool False],
      Result = Some (SummarysAt i)\<rparr>"

fun appendSummaryElems :: "Hash option list \<Rightarrow> nat list \<Rightarrow> BatchElem list \<Rightarrow> BatchElem list res" where
  "appendSummaryElems noRiskBlockhashs [] bElems = Inr bElems"
| "appendSummaryElems noRiskBlockhashs (i # is) bElems =
     (case noRiskBlockhashs ! i of
        None \<Rightarrow> Inl (Panic NilDereference)
      | Some h \<Rightarrow> appendSummaryElems noRiskBlockhashs is (bElems @ [summaryElem h i]))"

text \<open>Lines 949-951: \<^verbatim>\<open>risks[iRisks] = risk\<close> for every index recorded for the hash.\<close>

fun assignRisk :: "nat list \<Rightarrow> string \<Rightarrow> string list \<Rightarrow> string list res" where
  "assignRisk [] risk risks' = Inr risks'"
| "assignRisk (iRisks # indexs) risk risks' =
     (if iRisks < length risks' then assignRisk indexs risk (risks'[iRisks := risk])
      else Inl (Panic (IndexOutOfRange iRisks (length risks'))))"

text \<open>
  Lines 940-953: the loop ranges over \<open>bElems\<close> and reads \<^verbatim>\<open>summarys[i]\<close>, which
  panics when \<open>i\<close> is not below the length of \<open>summarys\<close>.
\<close>

fun applySummarys ::
  "BlockSummary list \<Rightarrow> (Hash \<Rightarrow> nat list) \<Rightarrow> nat list \<Rightarrow> string list \<Rightarrow> string list res" where
  "applySummarys summarys' indexMap [] risks' = Inr risks'"
| "applySummarys summarys' indexMap (i # is) risks' =
     (if i < length summarys' then
        (let indexs = indexMap (blockHash (summarys' ! i));
             risk = (if EpochNumber (summarys' ! i) \<noteq> None
                     then BigString 0 else BigString MaxUint256)
         in case assignRisk indexs risk risks' of
              Inl f \<Rightarrow> Inl f
            | Inr risks'' \<Rightarrow> applySummarys summarys' indexMap is risks'')
      else Inl (Panic (IndexOutOfRange i (length summarys'))))"

text \<open>Lines 957-965.\<close>

fun ratesOf :: "string list \<Rightarrow> rat list res" where
  "ratesOf [] = Inr []"
| "ratesOf (risk # risks') =
     (case DecodeBig risk of
        Inl e \<Rightarrow>
          Inl (Err (WrapError e (Sprintf ''create big int by risk value %v error'' [VString risk])))
      | Inr b \<Rightarrow>
          (case ratesOf risks' of
             Inl f \<Rightarrow> Inl f
           | Inr rates \<Rightarrow> Inr (CalcBlockRevertRate b # rates)))"

text \<open>Lines 922-954, entered with the slice of risks after the first batch.\<close>

definition fallback ::
  "Client \<Rightarrow> Hash option list \<Rightarrow> (Hash \<Rightarrow> nat list) \<Rightarrow> string list \<Rightarrow> world
     \<Rightarrow> string list res \<times> world" where
  "fallback client noRiskBlockhashs indexMap risks' w =
     (let n = length noRiskBlockhashs in
      case appendSummaryElems noRiskBlockhashs [0..<n] (replicate n zeroBatchElem) of
        Inl f \<Rightarrow> (Inl f, w)
      | Inr bElems \<Rightarrow>
          (case BatchCallRPC client bElems
                  \<lparr>risks = risks', summarys = replicate n zeroBlockSummary\<rparr> w of
             (Some e, m, w1) \<Rightarrow>
               (Inl (Err (WrapError e
                  (Sprintf ''batch call cfx_getBlockByHash with BatchItem %v error'' [VBatch bElems]))), w1)
           | (None, m, w1) \<Rightarrow>
               (applySummarys (summarys m) indexMap [0..<length bElems] (risks m), w1)))"

text \<open>\<^verbatim>\<open>BatchGetBlockRevertRates\<close>, lines 879-967.\<close>

definition BatchGetBlockRevertRates ::
  "Client \<Rightarrow> Hash option list \<Rightarrow> world \<Rightarrow> rat list res \<times> world" where
  "BatchGetBlockRevertRates client blockhashs w =
     (if length blockhashs = 0 then (Inr [], w)
      else
        (case foldl (riskStep blockhashs) ([], replicate (length blockhashs) [])
                [0..<length blockhashs] of
           (bElems, risks0) \<Rightarrow>
             (case BatchCallRPC client bElems \<lparr>risks = risks0, summarys = []\<rparr> w of
                (Some e, m, w1) \<Rightarrow>
                  (Inl (Err (WrapError e
                     (Sprintf ''batch call cfx_getConfirmationRiskByHash with BatchItem %v error''
                        [VBatch bElems]))), w1)
              | (None, m, w1) \<Rightarrow>
                  (case collectNoRisk blockhashs (risks m) [0..<length blockhashs] ([], \<lambda>h. []) of
                     Inl f \<Rightarrow> (Inl f, w1)
                   | Inr (noRiskBlockhashs, indexMap) \<Rightarrow>
                       (if 0 < length noRiskBlockhashs then
                          (case fallback client noRiskBlockhashs indexMap (risks m) w1 of
                             (Inl f, w2) \<Rightarrow> (Inl f, w2)
                           | (Inr risks', w2) \<Rightarrow> (ratesOf risks', w2))
                        else (ratesOf (risks m), w1))))))"

section \<open>Contract deployment\<close>

text \<open>
  \<^verbatim>\<open>hexutil.Encode\<close> and \<^verbatim>\<open>SendRawTransaction\<close> (lines 457-466),
  \<^verbatim>\<open>SendTransaction\<close> (lines 404-454).
\<close>

definition Encode :: "8 word list \<Rightarrow> string" where
  "Encode bs = ''0x'' @ EncodeToString bs"

definition SendRawTransaction :: "Client \<Rightarrow> 8 word list \<Rightarrow> world \<Rightarrow> Hash res \<times> world" where
  "SendRawTransaction client rawData w =
     (case requester_Call (rpcRequester client) ''cfx_sendRawTransaction'' [ArgString (Encode rawData)] w of
        (Inl e, w1) \<Rightarrow>
          (Inl (Err (WrapError e (Sprintf ''rpc cfx_sendRawTransaction 0x%+x error'' [VBytes rawData]))), w1)
      | (Inr result, w1) \<Rightarrow> (assertString result, w1))"

definition SendTransaction ::
  "externals \<Rightarrow> Client option \<Rightarrow> UnsignedTransaction \<Rightarrow> world
     \<Rightarrow> Hash res \<times> UnsignedTransaction \<times> world" where
  "SendTransaction ext client' tx w =
     (case ApplyUnsignedTransactionDefault ext client' tx w of
        (Some (Err e), tx1, w1) \<Rightarrow>
          (Inl (Err (WrapError e
             (Sprintf ''apply transaction {%+v} default fields error'' [VTx tx1]))), tx1, w1)
      | (Some (Panic p), tx1, w1) \<Rightarrow> (Inl (Panic p), tx1, w1)
      | (None, tx1, w1) \<Rightarrow>
          (case client' of
             None \<Rightarrow> (Inl (Panic NilDereference), tx1, w1)
           | Some client \<Rightarrow>
               (case accountManager client of
                  None \<Rightarrow>
                    (Inl (Err (ErrorNew (Sprintf
                       ''sign transaction need account manager, please call SetAccountManager to set it.''
                       []))), tx1, w1)
                | Some am \<Rightarrow>
                    (case SignTransaction am tx1 of
                       Inl e \<Rightarrow>
                         (Inl (Err (WrapError e (Sprintf ''sign transaction {%+v} error'' [VTx tx1]))),
                          tx1, w1)
                     | Inr rawData \<Rightarrow>
                         (case SendRawTransaction client rawData w1 of
                            (Inl (Err e), w2) \<Rightarrow>
                              (Inl (Err (WrapError e
                                 (Sprintf ''send raw transaction 0x%+x error'' [VBytes rawData]))), tx1, w2)
                          | (Inl (Panic p), w2) \<Rightarrow> (Inl (Panic p), tx1, w2)
                          | (Inr txhash, w2) \<Rightarrow> (Inr txhash, tx1, w2))))))"

text \<open>
  The ABI library (go-ethereum) is a collaborator outside the repository: decoding the
  ABI description and packing the constructor arguments are its two operations.
\<close>

type_synonym abi = string

record abi_library =
  UnmarshalJSON :: "8 word list \<Rightarrow> err + abi"
  Pack :: "abi \<Rightarrow> string \<Rightarrow> arg list \<Rightarrow> err + 8 word list"

record Contract =
  ABI :: abi
  Address :: "Address option"

record ContractDeployResult =
  DeployedContract :: "Contract option"
  TransactionHash :: "Hash option"
  Error :: "err option"

definition emptyResult :: ContractDeployResult where
  "emptyResult = \<lparr>DeployedContract = None, TransactionHash = None, Error = None\<rparr>"

text \<open>
  The goroutine of \<^verbatim>\<open>DeployContract\<close> (lines 753-832) blocks in a \<^verbatim>\<open>select\<close> on
  two channels.  Which case fires is decided by the timers and the scheduler: a run is
  driven by the list of cases that fire, the timeout case carrying the time read from
  the channel.  A goroutine ends by returning or by panicking; with the list exhausted
  it is still waiting in the \<^verbatim>\<open>select\<close>.
\<close>

datatype selected = TimeoutCase Time | TickerCase

datatype goroutine = Returned | Panicked panic | Waiting

datatype chan_op = ChanSend | ChanClose

record deployment =
  ending :: goroutine
  result :: ContractDeployResult
  timeoutAfter :: "Duration option"
  tickEvery :: "Duration option"
  doneChan :: "chan_op list"
  effects :: world

definition Uint64 :: "int \<Rightarrow> nat" where
  "Uint64 x = nat \<bar>x\<bar> mod 2 ^ 64"

text \<open>Lines 797-800: the duration handed to the timer the \<^verbatim>\<open>select\<close> waits on.\<close>

definition deployTimeout :: "ContractDeployOption option \<Rightarrow> Duration" where
  "deployTimeout option =
     (case option of
        None \<Rightarrow> 3600 * Second
      | Some opt \<Rightarrow> (if Timeout opt \<noteq> 0 then Timeout opt else 3600 * Second))"

text \<open>Lines 813-829: the body of the ticker case; \<open>None\<close> means the loop goes on.\<close>

definition tick ::
  "Client \<Rightarrow> abi \<Rightarrow> Hash \<Rightarrow> ContractDeployResult \<Rightarrow> world
     \<Rightarrow> goroutine option \<times> ContractDeployResult \<times> world" where
  "tick client abi' txhash res w =
     (case GetTransactionByHash client txhash w of
        (Inl (Err e), w1) \<Rightarrow>
          (Some Returned,
           res\<lparr>Error := Some (WrapError e
                  (Sprintf ''get transaction receipt of txhash %+v error'' [VString txhash]))\<rparr>, w1)
      | (Inl (Panic p), w1) \<Rightarrow> (Some (Panicked p), res, w1)
      | (Inr transaction', w1) \<Rightarrow>
          (case transaction' of
             None \<Rightarrow> (Some (Panicked NilDereference), res, w1)
           | Some transaction \<Rightarrow>
               (case Status transaction of
                  None \<Rightarrow> (None, res, w1)
                | Some status \<Rightarrow>
                    (if Uint64 status = 1 then
                       (Some Returned,
                        res\<lparr>Error := Some (ErrorNew (Sprintf
                               ''transaction is packed but it is failed,the txhash is %+v''
                               [VString txhash]))\<rparr>, w1)
                     else
                       (Some Returned,
                        res\<lparr>DeployedContract :=
                               Some \<lparr>ABI = abi', Address = ContractCreated transaction\<rparr>\<rparr>, w1)))))"

text \<open>Lines 804-831.\<close>

fun poll ::
  "Client \<Rightarrow> abi \<Rightarrow> Hash \<Rightarrow> selected list \<Rightarrow> ContractDeployResult \<Rightarrow> world
     \<Rightarrow> goroutine \<times> ContractDeployResult \<times> world" where
  "poll client abi' txhash [] res w = (Waiting, res, w)"
| "poll client abi' txhash (TimeoutCase t # cases) res w =
     (Returned,
      res\<lparr>Error := Some (ErrorNew (Sprintf ''deploy contract time out after %v, txhash is %+v''
                            [VTime t, VString txhash]))\<rparr>, w)"
| "poll client abi' txhash (TickerCase # cases) res w =
     (case tick client abi' txhash res w of
        (Some g, res1, w1) \<Rightarrow> (g, res1, w1)
      | (None, res1, w1) \<Rightarrow> poll client abi' txhash cases res1 w1)"

text \<open>
  The deferred function (lines 755-758) runs when the goroutine returns or panics: one
  send on the channel, then its close.
\<close>

definition finish ::
  "goroutine \<Rightarrow> ContractDeployResult \<Rightarrow> Duration option \<Rightarrow> Duration option \<Rightarrow> world \<Rightarrow> deployment" where
  "finish g res timer ticker w =
     \<lparr>ending = g, result = res, timeoutAfter = timer, tickEvery = ticker,
      doneChan = (if g = Waiting then [] else [ChanSend, ChanClose]), effects = w\<rparr>"

definition withBase :: "UnsignedTransaction \<Rightarrow> UnsignedTransactionBase \<Rightarrow> UnsignedTransaction" where
  "withBase tx b =
     tx\<lparr>From := baseFrom b, Nonce := baseNonce b, GasPrice := baseGasPrice b, Gas := baseGas b,
        Value := baseValue b, StorageLimit := baseStorageLimit b,
        EpochHeight := baseEpochHeight b, ChainID := baseChainID b\<rparr>"

text \<open>\<^verbatim>\<open>DeployContract\<close>, lines 747-834.\<close>

definition DeployContract ::
  "externals \<Rightarrow> abi_library \<Rightarrow> Client option \<Rightarrow> ContractDeployOption option \<Rightarrow> 8 word list
     \<Rightarrow> 8 word list \<Rightarrow> arg list \<Rightarrow> selected list \<Rightarrow> world \<Rightarrow> deployment" where
  "DeployContract ext lib client' option abiJSON bytecode constroctorParams cases w =
     (case UnmarshalJSON lib abiJSON of
        Inl e \<Rightarrow>
          finish Returned
            (emptyResult\<lparr>Error := Some (WrapError e
               (Sprintf ''unmarshal json {%+v} to ABI error'' [VBytes abiJSON]))\<rparr>) None None w
      | Inr abi' \<Rightarrow>
          (let tx = (case option of
                       None \<Rightarrow> zeroUnsignedTransaction
                     | Some opt \<Rightarrow> withBase zeroUnsignedTransaction (optionBase opt))
           in case (if 0 < length constroctorParams
                    then (case Pack lib abi' [] constroctorParams of
                            Inl e \<Rightarrow> Inl e
                          | Inr input \<Rightarrow> Inr (bytecode @ input))
                    else Inr bytecode) of
                Inl e \<Rightarrow>
                  finish Returned
                    (emptyResult\<lparr>Error := Some (WrapError e
                       (Sprintf ''encode constrctor with args %+v error'' [VArgs constroctorParams]))\<rparr>)
                    None None w
              | Inr bytecode' \<Rightarrow>
                  (case SendTransaction ext client' (tx\<lparr>Data := bytecode'\<rparr>) w of
                     (Inl (Err e), tx1, w1) \<Rightarrow>
                       finish Returned
                         (emptyResult\<lparr>Error := Some (WrapError e
                            (Sprintf ''send transaction {%+v} error'' [VTx tx1]))\<rparr>) None None w1
                   | (Inl (Panic p), tx1, w1) \<Rightarrow> finish (Panicked p) emptyResult None None w1
                   | (Inr txhash, tx1, w1) \<Rightarrow>
                       (case client' of
                          None \<Rightarrow> finish (Panicked NilDereference) emptyResult None None w1
                        | Some client \<Rightarrow>
                            (case poll client abi' txhash cases
                                    (emptyResult\<lparr>TransactionHash := Some txhash\<rparr>) w1 of
                               (g, res, w2) \<Rightarrow>
                                 finish g res (Some (deployTimeout option))
                                   (Some (2000 * Millisecond)) w2)))))"

section \<open>Concrete transports, clients and runs\<close>

definition down :: transport where
  "down =
     \<lparr>call_reply = (\<lambda>k method args. Inl (ErrorNew (Sprintf ''connection refused'' [VTime (int k)]))),
      batch_reply = (\<lambda>k b. (Some (ErrorNew (Sprintf ''connection refused'' [VTime (int k)])), []))\<rparr>"

definition retrying :: "64 word \<Rightarrow> rpcClientWithRetry" where
  "retrying n = \<lparr>inner = down, retryCount = n, interval = Second\<rparr>"

text \<open>
  A node that answers every query: gas price 0, next nonce 5, epoch 100, an estimate of
  21000 gas and no storage, and block or transaction lookups by what \<open>blocks\<close> and
  \<open>txs\<close> hold (\<open>txs\<close> also sees the number of requests sent before).
\<close>

definition answer ::
  "(Hash \<Rightarrow> json) \<Rightarrow> (nat \<Rightarrow> Hash \<Rightarrow> json) \<Rightarrow> nat \<Rightarrow> string \<Rightarrow> arg list \<Rightarrow> json" where
  "answer blocks txs k method args =
     (if method = ''cfx_gasPrice'' then JString ''0x0''
      else if method = ''cfx_getNextNonce'' then JString ''0x5''
      else if method = ''cfx_epochNumber'' then JString ''0x64''
      else if method = ''cfx_estimateGasAndCollateral''
        then JEstimate \<lparr>GasUsed = Some 21000, StorageCollateralized = Some 0\<rparr>
      else if method = ''cfx_sendRawTransaction'' then JString ''0xabc''
      else if method = ''cfx_getConfirmationRiskByHash''
        then (case args of [ArgHash h] \<Rightarrow> (if h = ''0x01'' then JString ''0x0'' else JNull) | _ \<Rightarrow> JNull)
      else if method = ''cfx_getBlockByHash''
        then (case args of ArgHash h # rest \<Rightarrow> blocks h | _ \<Rightarrow> JNull)
      else if method = ''cfx_getTransactionByHash''
        then (case args of [ArgHash h] \<Rightarrow> txs k h | _ \<Rightarrow> JNull)
      else JNull)"

definition replyOf :: "json \<Rightarrow> json option" where
  "replyOf v = (if v = JNull then None else Some v)"

definition node :: "(Hash \<Rightarrow> json) \<Rightarrow> (nat \<Rightarrow> Hash \<Rightarrow> json) \<Rightarrow> transport" where
  "node blocks txs =
     \<lparr>call_reply = (\<lambda>k method args. Inr (answer blocks txs k method args)),
      batch_reply = (\<lambda>k b. (None, map (\<lambda>be. replyOf (answer blocks txs k (Method be) (Args be))) b))\<rparr>"

definition noBlocks :: "Hash \<Rightarrow> json" where
  "noBlocks h = JNull"

definition noTxs :: "nat \<Rightarrow> Hash \<Rightarrow> json" where
  "noTxs k h = JNull"

definition keystore :: AccountManagerOperator where
  "keystore = \<lparr>GetDefault = Inr (Some ''0x19f4''), SignTransaction = (\<lambda>tx. Inr [1, 2, 3])\<rparr>"

definition emptyKeystore :: AccountManagerOperator where
  "emptyKeystore = \<lparr>GetDefault = Inr None, SignTransaction = (\<lambda>tx. Inr [1, 2, 3])\<rparr>"

definition clientOf :: "transport \<Rightarrow> AccountManagerOperator option \<Rightarrow> Client" where
  "clientOf t am = \<lparr>nodeURL = ''http://localhost:12537'', rpcRequester = Direct t, accountManager = am\<rparr>"

text \<open>An \<^verbatim>\<open>ApplyDefault\<close> that fills the value and the chain id where they are nil.\<close>

definition fillValueAndChain :: "UnsignedTransaction \<Rightarrow> UnsignedTransaction" where
  "fillValueAndChain tx =
     (let tx1 = (if Value tx = None then tx\<lparr>Value := Some 0\<rparr> else tx)
      in if ChainID tx1 = None then tx1\<lparr>ChainID := Some 0\<rparr> else tx1)"

definition mainnet :: externals where
  "mainnet = \<lparr>MinGasprice = 1, ApplyDefault = fillValueAndChain\<rparr>"

definition client0 :: Client where
  "client0 = clientOf (node noBlocks noTxs) (Some keystore)"

definition clientNoManager :: Client where
  "clientNoManager = clientOf (node noBlocks noTxs) None"

definition draft :: UnsignedTransaction where
  "draft = zeroUnsignedTransaction\<lparr>To := Some ''0x16'', Gas := Some 50000\<rparr>"

definition abiLib :: abi_library where
  "abiLib = \<lparr>UnmarshalJSON = (\<lambda>abiJSON. Inr ''erc20''), Pack = (\<lambda>abi' name args. Inr [4, 5])\<rparr>"

text \<open>
  A node on which the transaction stays pending, and one on which it is mined, with
  success status 0, from its sixth request on.
\<close>

definition pendingTxs :: "nat \<Rightarrow> Hash \<Rightarrow> json" where
  "pendingTxs k h = JTransaction \<lparr>txHash = h, Status = None, ContractCreated = None\<rparr>"

definition minedTxs :: "nat \<Rightarrow> Hash \<Rightarrow> json" where
  "minedTxs k h =
     (if k < 6 then JTransaction \<lparr>txHash = h, Status = None, ContractCreated = None\<rparr>
      else JTransaction \<lparr>txHash = h, Status = Some 0, ContractCreated = Some ''0x8d10''\<rparr>)"

definition clientPending :: Client where
  "clientPending = clientOf (node noBlocks pendingTxs) (Some keystore)"

definition clientMined :: Client where
  "clientMined = clientOf (node noBlocks minedTxs) (Some keystore)"

definition fiveSeconds :: ContractDeployOption where
  "fiveSeconds =
     \<lparr>optionBase = \<lparr>baseFrom = None, baseNonce = None, baseGasPrice = None, baseGas = None,
         baseValue = None, baseStorageLimit = None, baseEpochHeight = None, baseChainID = None\<rparr>,
      Timeout = 5 * Second\<rparr>"

text \<open>
  Nodes for the revert-risk calculation.  The node of \<open>answer\<close> knows the risk of block
  \<^verbatim>\<open>0x01\<close> only; \<open>pivotBlocks\<close> reports every block with an epoch number,
  \<open>orphanBlocks\<close> without one.  The transport \<open>skewed\<close> answers the first element of
  a batch with risk 0 and every other element with risk 1, whatever they ask.
\<close>

definition pivotBlocks :: "Hash \<Rightarrow> json" where
  "pivotBlocks h = JBlockSummary \<lparr>blockHash = h, EpochNumber = Some 7\<rparr>"

definition orphanBlocks :: "Hash \<Rightarrow> json" where
  "orphanBlocks h = JBlockSummary \<lparr>blockHash = h, EpochNumber = None\<rparr>"





section \<open>Predicates used in the properties\<close>

text \<open>
  \<open>keeps tx tx'\<close>: every field that is set in \<open>tx\<close> has the same value in \<open>tx'\<close>.
  A byte slice is set when it is not empty.
\<close>

definition keeps :: "UnsignedTransaction \<Rightarrow> UnsignedTransaction \<Rightarrow> bool" where
  "keeps tx tx' \<longleftrightarrow>
     (From tx \<noteq> None \<longrightarrow> From tx' = From tx) \<and>
     (Nonce tx \<noteq> None \<longrightarrow> Nonce tx' = Nonce tx) \<and>
     (GasPrice tx \<noteq> None \<longrightarrow> GasPrice tx' = GasPrice tx) \<and>
     (Gas tx \<noteq> None \<longrightarrow> Gas tx' = Gas tx) \<and>
     (Value tx \<noteq> None \<longrightarrow> Value tx' = Value tx) \<and>
     (StorageLimit tx \<noteq> None \<longrightarrow> StorageLimit tx' = StorageLimit tx) \<and>
     (EpochHeight tx \<noteq> None \<longrightarrow> EpochHeight tx' = EpochHeight tx) \<and>
     (ChainID tx \<noteq> None \<longrightarrow> ChainID tx' = ChainID tx) \<and>
     (To tx \<noteq> None \<longrightarrow> To tx' = To tx) \<and>
     (Data tx \<noteq> [] \<longrightarrow> Data tx' = Data tx)"

text \<open>The fields that resolution can fill are all set.\<close>

definition fullyPopulated :: "UnsignedTransaction \<Rightarrow> bool" where
  "fullyPopulated tx \<longleftrightarrow>
     From tx \<noteq> None \<and> Nonce tx \<noteq> None \<and> GasPrice tx \<noteq> None \<and> EpochHeight tx \<noteq> None
     \<and> StorageLimit tx \<noteq> None \<and> Gas tx \<noteq> None"

text \<open>An error names a duration when its outermost message formats a \<^verbatim>\<open>time.Duration\<close>.\<close>

fun isDuration :: "fmtval \<Rightarrow> bool" where
  "isDuration (VDuration d) = True"
| "isDuration v = False"

fun namesDuration :: "err \<Rightarrow> bool" where
  "namesDuration (ErrorNew (Sprintf format vs)) = list_ex isDuration vs"
| "namesDuration (WrapError e (Sprintf format vs)) = list_ex isDuration vs"


definition nilRisks :: "Hash option list \<Rightarrow> nat list \<Rightarrow> string list \<Rightarrow> string list" where
  "nilRisks blockhashs is rs =
     foldl (\<lambda>rs i. if blockhashs ! i = None then rs[i := EncodeBig MaxUint256] else rs) rs is"



text \<open>\<open>sentOnly b w w'\<close>: from \<open>w\<close> to \<open>w'\<close> nothing happened but sends of the batch \<open>b\<close> and sleeps.\<close>

definition sentOnly :: "BatchElem list \<Rightarrow> world \<Rightarrow> world \<Rightarrow> bool" where
  "sentOnly b w w' \<longleftrightarrow> (\<exists>evs. w' = w @ evs \<and> set evs \<subseteq> insert (BatchEv b) (range SleepEv))"



section \<open>Properties of the retrying transport\<close>

lemma requests_snoc [simp]:
  "requests (w @ [CallEv method args]) = requests w @ [CallEv method args]"
  "requests (w @ [BatchEv b]) = requests w @ [BatchEv b]"
  "requests (w @ [SleepEv d]) = requests w"
  by (simp_all add: requests_def)

lemma requests_Sleep [simp]: "requests (Sleep d w) = requests w"
  by (simp add: Sleep_def)

lemma Call_loop_fails:
  assumes "\<forall>k. isl (call_reply (inner r) k method args)" and "remain \<noteq> 0"
  shows "fst (Call_loop r method args remain w) =
           Inl (WrapError (projl (call_reply (inner r) (length (requests w) + unat remain - 1) method args))
                  (Sprintf ''timeout when call %v with args %v'' [VString method, VArgs args]))
         \<and> length (requests (snd (Call_loop r method args remain w))) = length (requests w) + unat remain"
  using assms(2)
proof (induction "unat remain" arbitrary: remain w)
  case 0
  then show ?case by (simp add: unat_eq_0)
next
  case (Suc n)
  obtain e where e: "call_reply (inner r) (length (requests w)) method args = Inl e"
    using assms(1) by (metis isl_def)
  let ?w1 = "w @ [CallEv method args]"
  have ic: "inner_Call (inner r) method args w = (Inl e, ?w1)"
    by (simp add: inner_Call_def e)
  show ?case
  proof (cases "remain - 1 = 0")
    case True
    then have "remain = 1" by simp
    then show ?thesis
      by (subst (1 2) Call_loop.simps) (simp add: ic e)
  next
    case False
    let ?w2 = "if 0 < interval r then Sleep (interval r) ?w1 else ?w1"
    have u: "unat (remain - 1) = n"
      using Suc.hyps(2) Suc.prems by (simp add: unat_minus_one)
    have rq: "requests ?w2 = requests w @ [CallEv method args]"
      by simp
    have step: "Call_loop r method args remain w = Call_loop r method args (remain - 1) ?w2"
      using False by (subst Call_loop.simps) (simp add: ic)
    have n0: "0 < n" using u False by (metis unat_gt_0)
    from Suc.hyps(1)[OF u[symmetric] False, of ?w2] show ?thesis
      using n0 by (simp add: step rq u Suc.hyps(2)[symmetric])
  qed
qed

lemma Call_fails:
  assumes "\<forall>k. isl (call_reply (inner r) k method args)" and "0 \<le> sint (retryCount r)"
  shows "fst (Call r method args w) =
           Inl (if retryCount r = 0
                then projl (call_reply (inner r) (length (requests w)) method args)
                else WrapError
                  (projl (call_reply (inner r) (length (requests w) + unat (retryCount r)) method args))
                  (Sprintf ''timeout when call %v with args %v'' [VString method, VArgs args]))
         \<and> length (requests (snd (Call r method args w))) = length (requests w) + unat (retryCount r) + 1"
proof -
  obtain e where e: "call_reply (inner r) (length (requests w)) method args = Inl e"
    using assms(1) by (metis isl_def)
  have ic: "inner_Call (inner r) method args w = (Inl e, w @ [CallEv method args])"
    by (simp add: inner_Call_def e)
  show ?thesis
  proof (cases "retryCount r = 0")
    case True
    then show ?thesis by (simp add: Call_def ic e)
  next
    case False
    then have pos: "\<not> sint (retryCount r) \<le> 0" using assms(2)
      by (metis antisym signed_eq_0_iff)
    have u: "0 < unat (retryCount r)" using False by (simp add: unat_gt_0)
    from Call_loop_fails[OF assms(1) False, of "w @ [CallEv method args]"] show ?thesis
      using False pos u by (simp add: Call_def ic)
  qed
qed

lemma BatchCall_loop_fails:
  assumes "\<forall>k. fst (batch_reply (inner r) k b) \<noteq> None" and "remain \<noteq> 0"
  shows "fst (fst (BatchCall_loop r b remain written w)) =
           Some (WrapError (the (fst (batch_reply (inner r) (length (requests w) + unat remain - 1) b)))
                  (Sprintf ''timeout when batch call %+v'' [VBatch b]))
         \<and> length (requests (snd (BatchCall_loop r b remain written w))) =
             length (requests w) + unat remain"
  using assms(2)
proof (induction "unat remain" arbitrary: remain written w)
  case 0
  then show ?case by (simp add: unat_eq_0)
next
  case (Suc n)
  obtain e vs where e: "batch_reply (inner r) (length (requests w)) b = (Some e, vs)"
    using assms(1) by (metis fst_conv not_Some_eq surj_pair)
  let ?w1 = "w @ [BatchEv b]"
  have ic: "inner_BatchCall (inner r) b w = ((Some e, vs), ?w1)"
    by (simp add: inner_BatchCall_def e)
  show ?case
  proof (cases "remain - 1 = 0")
    case True
    then have "remain = 1" by simp
    then show ?thesis
      by (subst (1 2) BatchCall_loop.simps) (simp add: ic e)
  next
    case False
    let ?w2 = "if 0 < interval r then Sleep (interval r) ?w1 else ?w1"
    have u: "unat (remain - 1) = n"
      using Suc.hyps(2) Suc.prems by (simp add: unat_minus_one)
    have rq: "requests ?w2 = requests w @ [BatchEv b]"
      by simp
    have step: "BatchCall_loop r b remain written w =
                BatchCall_loop r b (remain - 1) (written @ [vs]) ?w2"
      using False by (subst BatchCall_loop.simps) (simp add: ic)
    have n0: "0 < n" using u False by (metis unat_gt_0)
    from Suc.hyps(1)[OF u[symmetric] False, of "written @ [vs]" ?w2] show ?thesis
      using n0 by (simp add: step rq u Suc.hyps(2)[symmetric])
  qed
qed

lemma BatchCall_fails:
  assumes "\<forall>k. fst (batch_reply (inner r) k b) \<noteq> None" and "0 \<le> sint (retryCount r)"
  shows "fst (fst (BatchCall r b w)) =
           Some (if retryCount r = 0
                then the (fst (batch_reply (inner r) (length (requests w)) b))
                else WrapError
                  (the (fst (batch_reply (inner r) (length (requests w) + unat (retryCount r)) b)))
                  (Sprintf ''timeout when batch call %+v'' [VBatch b]))
         \<and> length (requests (snd (BatchCall r b w))) = length (requests w) + unat (retryCount r) + 1"
proof -
  obtain e vs where e: "batch_reply (inner r) (length (requests w)) b = (Some e, vs)"
    using assms(1) by (metis fst_conv not_Some_eq surj_pair)
  have ic: "inner_BatchCall (inner r) b w = ((Some e, vs), w @ [BatchEv b])"
    by (simp add: inner_BatchCall_def e)
  show ?thesis
  proof (cases "retryCount r = 0")
    case True
    then show ?thesis by (simp add: BatchCall_def ic e)
  next
    case False
    then have pos: "\<not> sint (retryCount r) \<le> 0" using assms(2)
      by (metis antisym signed_eq_0_iff)
    have u: "0 < unat (retryCount r)" using False by (simp add: unat_gt_0)
    from BatchCall_loop_fails[OF assms(1) False, of "[vs]" "w @ [BatchEv b]"] show ?thesis
      using False pos u by (simp add: BatchCall_def ic)
  qed
qed

text \<open>
  C4, as the code has it.  With a retry count \<open>N \<ge> 0\<close> and an inner transport that
  fails on every attempt, \<^verbatim>\<open>Call\<close> and \<^verbatim>\<open>BatchCall\<close> each send exactly \<open>N + 1\<close>
  requests to the inner transport and return an error.  For \<open>N \<ge> 1\<close> the error wraps
  the error of the last attempt in a message that holds the method and the arguments
  (or the batch); for \<open>N = 0\<close> it is the error of the single attempt itself, unwrapped.
\<close>

theorem retry_attempts:
  assumes "0 \<le> sint (retryCount r)"
    and "\<forall>k. isl (call_reply (inner r) k method args)"
    and "\<forall>k. fst (batch_reply (inner r) k b) \<noteq> None"
  shows "length (requests (snd (Call r method args w))) = length (requests w) + unat (retryCount r) + 1
       \<and> fst (Call r method args w) =
           Inl (if retryCount r = 0
                then projl (call_reply (inner r) (length (requests w)) method args)
                else WrapError
                  (projl (call_reply (inner r) (length (requests w) + unat (retryCount r)) method args))
                  (Sprintf ''timeout when call %v with args %v'' [VString method, VArgs args]))
       \<and> length (requests (snd (BatchCall r b w))) = length (requests w) + unat (retryCount r) + 1
       \<and> fst (fst (BatchCall r b w)) =
           Some (if retryCount r = 0
                then the (fst (batch_reply (inner r) (length (requests w)) b))
                else WrapError
                  (the (fst (batch_reply (inner r) (length (requests w) + unat (retryCount r)) b)))
                  (Sprintf ''timeout when batch call %+v'' [VBatch b]))"
  using Call_fails[OF assms(2) assms(1), of w] BatchCall_fails[OF assms(3) assms(1), of w]
  by simp

theorem retry_attempts_witness:
  "length (requests (snd (Call (retrying 2) ''cfx_gasPrice'' [] []))) = 3
   \<and> fst (Call (retrying 2) ''cfx_gasPrice'' [] []) =
       Inl (WrapError (ErrorNew (Sprintf ''connection refused'' [VTime 2]))
              (Sprintf ''timeout when call %v with args %v'' [VString ''cfx_gasPrice'', VArgs []]))
   \<and> length (requests (snd (BatchCall (retrying 2) [zeroBatchElem] []))) = 3
   \<and> fst (fst (BatchCall (retrying 2) [zeroBatchElem] [])) =
       Some (WrapError (ErrorNew (Sprintf ''connection refused'' [VTime 2]))
              (Sprintf ''timeout when batch call %+v'' [VBatch [zeroBatchElem]]))"
  using retry_attempts [of "retrying 2" "''cfx_gasPrice''" "[]" "[zeroBatchElem]" "[]"]
  by (simp add: retrying_def down_def requests_def)

text \<open>
  With a budget of 0 the single attempt's error comes back as it is, not wrapped with
  the method and the arguments.
\<close>

theorem retry_budget_zero_counterexample:
  "fst (Call (retrying 0) ''cfx_gasPrice'' [] []) =
       Inl (ErrorNew (Sprintf ''connection refused'' [VTime 0]))
   \<and> fst (Call (retrying 0) ''cfx_gasPrice'' [] []) \<noteq>
       Inl (WrapError (ErrorNew (Sprintf ''connection refused'' [VTime 0]))
              (Sprintf ''timeout when call %v with args %v'' [VString ''cfx_gasPrice'', VArgs []]))
   \<and> length (requests (snd (Call (retrying 0) ''cfx_gasPrice'' [] []))) = 1"
  by (simp add: Call_def inner_Call_def retrying_def down_def requests_def)

section \<open>Properties of default resolution\<close>

subsection \<open>What each block may change\<close>

lemma resolveFrom_shape:
  assumes "resolveFrom client tx w = (f, tx', w')"
  shows "w' = w \<and> ((f \<noteq> None \<and> tx' = tx) \<or> (f = None \<and> From tx \<noteq> None \<and> tx' = tx)
           \<or> (f = None \<and> From tx = None \<and> accountManager client = None \<and> tx' = tx)
           \<or> (f = None \<and> From tx = None \<and> (\<exists>a. tx' = tx\<lparr>From := Some a\<rparr>)))"
  using assms by (auto simp: resolveFrom_def split: if_splits option.splits sum.splits)

lemma resolveNonce_shape:
  assumes "resolveNonce client tx w = (f, tx', w')"
  shows "(f \<noteq> None \<and> tx' = tx) \<or> (f = None \<and> Nonce tx \<noteq> None \<and> tx' = tx \<and> w' = w)
       \<or> (f = None \<and> Nonce tx = None \<and> From tx \<noteq> None \<and> (\<exists>n. tx' = tx\<lparr>Nonce := Some n\<rparr>))"
  using assms
  by (auto simp: resolveNonce_def
      split: if_splits option.splits sum.splits prod.splits failure.splits)

lemma resolveGasPrice_shape:
  assumes "resolveGasPrice ext client tx w = (f, tx', w')"
  shows "(f \<noteq> None \<and> tx' = tx) \<or> (f = None \<and> GasPrice tx \<noteq> None \<and> tx' = tx \<and> w' = w)
       \<or> (f = None \<and> GasPrice tx = None \<and>
           (\<exists>p. fst (GetGasPrice client w) = Inr p
              \<and> tx' = tx\<lparr>GasPrice := Some (max p (MinGasprice ext))\<rparr>))"
  using assms
  by (auto simp: resolveGasPrice_def max_def Let_def
      split: if_splits option.splits sum.splits prod.splits failure.splits)

lemma resolveEpochHeight_shape:
  assumes "resolveEpochHeight client tx w = (f, tx', w')"
  shows "(f \<noteq> None \<and> tx' = tx) \<or> (f = None \<and> EpochHeight tx \<noteq> None \<and> tx' = tx \<and> w' = w)
       \<or> (f = None \<and> EpochHeight tx = None \<and> (\<exists>n. tx' = tx\<lparr>EpochHeight := Some n\<rparr>))"
  using assms
  by (auto simp: resolveEpochHeight_def
      split: if_splits option.splits sum.splits prod.splits failure.splits)

lemma resolveGasAndStorage_shape:
  assumes "resolveGasAndStorage client tx w = (f, tx', w')"
  shows "From tx' = From tx \<and> Nonce tx' = Nonce tx \<and> GasPrice tx' = GasPrice tx
       \<and> EpochHeight tx' = EpochHeight tx \<and> Value tx' = Value tx \<and> ChainID tx' = ChainID tx
       \<and> To tx' = To tx \<and> Data tx' = Data tx
       \<and> (Gas tx \<noteq> None \<longrightarrow> Gas tx' = Gas tx)
       \<and> (StorageLimit tx \<noteq> None \<longrightarrow> StorageLimit tx' = StorageLimit tx)"
  using assms
  by (auto simp: resolveGasAndStorage_def Let_def
      split: if_splits option.splits sum.splits prod.splits failure.splits)

lemma keeps_refl: "keeps tx tx"
  by (simp add: keeps_def)

lemma keeps_trans: "keeps a b \<Longrightarrow> keeps b c \<Longrightarrow> keeps a c"
  unfolding keeps_def by metis

lemma step_keeps:
  "keeps tx (fst (snd (resolveFrom client tx w)))"
  "keeps tx (fst (snd (resolveNonce client tx w)))"
  "keeps tx (fst (snd (resolveGasPrice ext client tx w)))"
  "keeps tx (fst (snd (resolveEpochHeight client tx w)))"
  "keeps tx (fst (snd (resolveGasAndStorage client tx w)))"
proof -
  obtain f1 t1 w1 where r1: "resolveFrom client tx w = (f1, t1, w1)" by (metis prod_cases3)
  from resolveFrom_shape[OF r1] show "keeps tx (fst (snd (resolveFrom client tx w)))"
    by (auto simp: r1 keeps_def)
  obtain f2 t2 w2 where r2: "resolveNonce client tx w = (f2, t2, w2)" by (metis prod_cases3)
  from resolveNonce_shape[OF r2] show "keeps tx (fst (snd (resolveNonce client tx w)))"
    by (auto simp: r2 keeps_def)
  obtain f3 t3 w3 where r3: "resolveGasPrice ext client tx w = (f3, t3, w3)" by (metis prod_cases3)
  from resolveGasPrice_shape[OF r3] show "keeps tx (fst (snd (resolveGasPrice ext client tx w)))"
    by (auto simp: r3 keeps_def)
  obtain f4 t4 w4 where r4: "resolveEpochHeight client tx w = (f4, t4, w4)" by (metis prod_cases3)
  from resolveEpochHeight_shape[OF r4] show "keeps tx (fst (snd (resolveEpochHeight client tx w)))"
    by (auto simp: r4 keeps_def)
  obtain f5 t5 w5 where r5: "resolveGasAndStorage client tx w = (f5, t5, w5)" by (metis prod_cases3)
  from resolveGasAndStorage_shape[OF r5] show "keeps tx (fst (snd (resolveGasAndStorage client tx w)))"
    by (simp add: r5 keeps_def)
qed

lemma andThen_keeps:
  assumes "keeps tx (fst (snd r))"
    and "\<And>t v. keeps t (fst (snd (k t v)))"
  shows "keeps tx (fst (snd (andThen r k)))"
proof (cases r)
  case (fields f t v)
  show ?thesis
  proof (cases f)
    case None
    with fields assms(1) assms(2)[of t v] show ?thesis
      by (auto simp: andThen_def intro: keeps_trans)
  next
    case (Some a)
    with fields assms(1) show ?thesis by (simp add: andThen_def)
  qed
qed

lemma resolveFields_keeps: "keeps tx (fst (snd (resolveFields ext client tx w)))"
  unfolding resolveFields_def
  by (intro andThen_keeps step_keeps)

lemma resolveFields_full:
  assumes "fullyPopulated tx"
  shows "resolveFields ext client tx w = (None, tx, w)"
  using assms
  by (auto simp: fullyPopulated_def resolveFields_def andThen_def resolveFrom_def resolveNonce_def
      resolveGasPrice_def resolveEpochHeight_def resolveGasAndStorage_def)

lemma fillValueAndChain_keeps: "keeps t (fillValueAndChain t)"
  by (simp add: keeps_def fillValueAndChain_def Let_def)

text \<open>
  C6.  Provided \<^verbatim>\<open>ApplyDefault\<close> (outside the given sources) leaves set fields as
  they are, default resolution never changes a field that was set on entry, whatever
  the client, the node's replies and the exit taken; and on a transaction whose
  resolvable fields are all set it sends no request and returns no error.
\<close>

theorem resolution_frame:
  assumes "\<forall>t. keeps t (ApplyDefault ext t)"
  shows "keeps tx (fst (snd (ApplyUnsignedTransactionDefault ext client' tx w)))
       \<and> (fullyPopulated tx \<longrightarrow>
            fst (ApplyUnsignedTransactionDefault ext client' tx w) = None
          \<and> snd (snd (ApplyUnsignedTransactionDefault ext client' tx w)) = w)"
proof (cases client')
  case None
  then show ?thesis by (simp add: ApplyUnsignedTransactionDefault_def keeps_refl)
next
  case (Some client)
  have "keeps tx (fst (snd (andThen (resolveFields ext client tx w)
          (\<lambda>tx w. (None, ApplyDefault ext tx, w)))))"
    by (rule andThen_keeps) (simp_all add: resolveFields_keeps assms)
  then show ?thesis using Some
    by (simp add: ApplyUnsignedTransactionDefault_def resolveFields_full andThen_def)
qed

theorem resolution_frame_witness:
  "keeps draft (fst (snd (ApplyUnsignedTransactionDefault mainnet (Some client0) draft [])))
   \<and> Gas (fst (snd (ApplyUnsignedTransactionDefault mainnet (Some client0) draft []))) = Some 50000
   \<and> fullyPopulated (draft\<lparr>From := Some ''0x19f4'', Nonce := Some 5, GasPrice := Some 1,
         StorageLimit := Some 0, EpochHeight := Some 100\<rparr>)
   \<and> ApplyUnsignedTransactionDefault mainnet (Some client0)
       (draft\<lparr>From := Some ''0x19f4'', Nonce := Some 5, GasPrice := Some 1,
          StorageLimit := Some 0, EpochHeight := Some 100\<rparr>) [] =
     (None, draft\<lparr>From := Some ''0x19f4'', Nonce := Some 5, GasPrice := Some 1,
          StorageLimit := Some 0, EpochHeight := Some 100, Value := Some 0, ChainID := Some 0\<rparr>, [])"
proof -
  have ad: "\<forall>t. keeps t (ApplyDefault mainnet t)"
    by (simp add: mainnet_def fillValueAndChain_keeps)
  have "Gas (fst (snd (ApplyUnsignedTransactionDefault mainnet (Some client0) draft []))) = Some 50000"
    by code_simp
  moreover have "fullyPopulated (draft\<lparr>From := Some ''0x19f4'', Nonce := Some 5, GasPrice := Some 1,
         StorageLimit := Some 0, EpochHeight := Some 100\<rparr>)"
    by (simp add: fullyPopulated_def draft_def)
  moreover have "ApplyUnsignedTransactionDefault mainnet (Some client0)
       (draft\<lparr>From := Some ''0x19f4'', Nonce := Some 5, GasPrice := Some 1,
          StorageLimit := Some 0, EpochHeight := Some 100\<rparr>) [] =
     (None, draft\<lparr>From := Some ''0x19f4'', Nonce := Some 5, GasPrice := Some 1,
          StorageLimit := Some 0, EpochHeight := Some 100, Value := Some 0, ChainID := Some 0\<rparr>, [])"
    by code_simp
  ultimately show ?thesis
    using resolution_frame [OF ad, of draft "Some client0" "[]"] by simp
qed

text \<open>
  C5.  When the gas price is unset on entry and resolution returns without failure, the
  resolved gas price is the larger of the price the node reported and the minimum:
  the minimum when the node's price is below it, the node's price otherwise.  The
  node's price is the reply to the gas-price query, sent after the first two blocks.
  (\<^verbatim>\<open>ApplyDefault\<close> is assumed to leave a set gas price alone.)
\<close>

theorem gas_price_floor:
  assumes run: "ApplyUnsignedTransactionDefault ext (Some client) tx w = (None, tx', w')"
    and unset: "GasPrice tx = None"
    and AD: "\<forall>t. GasPrice t \<noteq> None \<longrightarrow> GasPrice (ApplyDefault ext t) = GasPrice t"
  shows "\<exists>p. fst (GetGasPrice client
                 (snd (snd (resolveNonce client (fst (snd (resolveFrom client tx w))) w)))) = Inr p
            \<and> GasPrice tx' = Some (max p (MinGasprice ext))"
proof -
  obtain f1 t1 w1 where r1: "resolveFrom client tx w = (f1, t1, w1)" by (metis prod_cases3)
  obtain f2 t2 w2 where r2: "resolveNonce client t1 w1 = (f2, t2, w2)" by (metis prod_cases3)
  obtain f3 t3 w3 where r3: "resolveGasPrice ext client t2 w2 = (f3, t3, w3)" by (metis prod_cases3)
  obtain f4 t4 w4 where r4: "resolveEpochHeight client t3 w3 = (f4, t4, w4)" by (metis prod_cases3)
  obtain f5 t5 w5 where r5: "resolveGasAndStorage client t4 w4 = (f5, t5, w5)" by (metis prod_cases3)
  from run have ok: "f1 = None" "f2 = None" "f3 = None" "f4 = None" "f5 = None"
    and fin: "tx' = ApplyDefault ext t5"
    by (auto simp: ApplyUnsignedTransactionDefault_def resolveFields_def andThen_def r1 r2 r3 r4 r5
        split: option.splits)
  from resolveFrom_shape[OF r1] have w1: "w1 = w" and g1: "GasPrice t1 = GasPrice tx" by auto
  from resolveNonce_shape[OF r2] have g2: "GasPrice t2 = GasPrice t1" by auto
  from resolveGasPrice_shape[OF r3] ok(3) unset g1 g2
  obtain p where p: "fst (GetGasPrice client w2) = Inr p"
    and g3: "GasPrice t3 = Some (max p (MinGasprice ext))" by auto
  from resolveEpochHeight_shape[OF r4] have g4: "GasPrice t4 = GasPrice t3" by auto
  from resolveGasAndStorage_shape[OF r5] have g5: "GasPrice t5 = GasPrice t4" by simp
  have "GasPrice tx' = Some (max p (MinGasprice ext))"
    using AD fin g3 g4 g5 by simp
  moreover have "snd (snd (resolveNonce client (fst (snd (resolveFrom client tx w))) w)) = w2"
    using r1 r2 w1 by simp
  ultimately show ?thesis using p by auto
qed

theorem gas_price_floor_witness:
  "fst (GetGasPrice client0 [CallEv ''cfx_getNextNonce'' [ArgAddress ''0x19f4'']]) = Inr 0
   \<and> MinGasprice mainnet = 1
   \<and> GasPrice (fst (snd (ApplyUnsignedTransactionDefault mainnet (Some client0) draft []))) = Some 1"
proof -
  let ?tx' = "fst (snd (ApplyUnsignedTransactionDefault mainnet (Some client0) draft []))"
  let ?w' = "snd (snd (ApplyUnsignedTransactionDefault mainnet (Some client0) draft []))"
  have "fst (ApplyUnsignedTransactionDefault mainnet (Some client0) draft []) = None"
    by code_simp
  then have run: "ApplyUnsignedTransactionDefault mainnet (Some client0) draft [] = (None, ?tx', ?w')"
    by (metis prod.collapse)
  have unset: "GasPrice draft = None"
    by (simp add: draft_def zeroUnsignedTransaction_def)
  have ad: "\<forall>t. GasPrice t \<noteq> None \<longrightarrow> GasPrice (ApplyDefault mainnet t) = GasPrice t"
    by (simp add: mainnet_def fillValueAndChain_def Let_def)
  have w2: "snd (snd (resolveNonce client0 (fst (snd (resolveFrom client0 draft []))) [])) =
            [CallEv ''cfx_getNextNonce'' [ArgAddress ''0x19f4'']]"
    by code_simp
  have price: "fst (GetGasPrice client0 [CallEv ''cfx_getNextNonce'' [ArgAddress ''0x19f4'']]) = Inr 0"
    by code_simp
  have min: "MinGasprice mainnet = 1"
    by (simp add: mainnet_def)
  from gas_price_floor [OF run unset ad] obtain p
    where "fst (GetGasPrice client0 [CallEv ''cfx_getNextNonce'' [ArgAddress ''0x19f4'']]) = Inr p"
      and "GasPrice ?tx' = Some (max p (MinGasprice mainnet))"
    unfolding w2 by blast
  with price min show ?thesis by simp
qed

text \<open>
  With an account manager that has no default account, resolution of an unset
  \<^verbatim>\<open>from\<close> stops with the error of line 667 before any request is sent.
\<close>

lemma no_default_account_error:
  assumes "From tx = None" and "accountManager client = Some am" and "GetDefault am = Inr None"
  shows "ApplyUnsignedTransactionDefault ext (Some client) tx w =
           (Some (Err (ErrorNew (Sprintf ''no account exist in keystore directory'' []))), tx, w)"
  using assms
  by (simp add: ApplyUnsignedTransactionDefault_def resolveFields_def resolveFrom_def andThen_def)

text \<open>
  C3 fails on the code when no account manager is set: the block of lines 659-671 does
  nothing, resolution goes on, and the nonce block dereferences the nil \<^verbatim>\<open>tx.From\<close>
  (first run below); with the nonce already set it goes on through the remaining
  queries and returns no error, \<^verbatim>\<open>from\<close> still unset (second run).
\<close>

theorem no_account_manager_not_reported:
  "ApplyUnsignedTransactionDefault mainnet (Some clientNoManager) draft [] =
     (Some (Panic NilDereference), draft, [])
   \<and> fst (ApplyUnsignedTransactionDefault mainnet (Some clientNoManager)
            (draft\<lparr>Nonce := Some 7\<rparr>) []) = None
   \<and> From (fst (snd (ApplyUnsignedTransactionDefault mainnet (Some clientNoManager)
            (draft\<lparr>Nonce := Some 7\<rparr>) []))) = None
   \<and> length (snd (snd (ApplyUnsignedTransactionDefault mainnet (Some clientNoManager)
            (draft\<lparr>Nonce := Some 7\<rparr>) []))) = 3"
  by code_simp

text \<open>
  C7 fails on the code for the same reason: without an account manager and with the
  nonce set, the estimation request is sent while \<^verbatim>\<open>from\<close> is unset, and the
  request carries no sender.
\<close>

theorem estimation_without_from:
  "snd (snd (ApplyUnsignedTransactionDefault mainnet (Some clientNoManager)
               (draft\<lparr>Nonce := Some 7\<rparr>) [])) =
     [CallEv ''cfx_gasPrice'' [],
      CallEv ''cfx_epochNumber'' [ArgEpoch ''latest_state''],
      CallEv ''cfx_estimateGasAndCollateral''
        [ArgCallRequest
           \<lparr>reqFrom = None, reqTo = Some ''0x16'', reqGasPrice = Some 1, reqGas = Some 50000,
            reqValue = None, reqData = ''0x'', reqNonce = Some 7, reqStorageLimit = None\<rparr>]]"
  by code_simp

section \<open>Properties of contract deployment\<close>

text \<open>A tick that finds the transaction with its status unset lets the loop go on.\<close>

lemma tick_status_unset:
  assumes "GetTransactionByHash client txhash w = (Inr (Some transaction), w1)"
    and "Status transaction = None"
  shows "tick client abi' txhash res w = (None, res, w1)"
  using assms by (simp add: tick_def)

text \<open>
  A tick whose lookup succeeds without finding the transaction ends the goroutine with
  a panic: line 820 reads \<^verbatim>\<open>transaction.Status\<close> through the nil pointer that
  line 564 returned.
\<close>

lemma tick_absent_panics:
  assumes "GetTransactionByHash client txhash w = (Inr None, w1)"
  shows "tick client abi' txhash res w = (Some (Panicked NilDereference), res, w1)"
  using assms by (simp add: tick_def)

text \<open>
  C2 fails on the code where the transaction is absent.  The node answers the lookup of
  \<^verbatim>\<open>0xabc\<close> with \<^verbatim>\<open>null\<close>: \<^verbatim>\<open>GetTransactionByHash\<close> returns \<^verbatim>\<open>(nil, nil)\<close>, and
  the tick does not go on polling but panics.
\<close>

theorem absent_transaction_panics:
  "GetTransactionByHash client0 ''0xabc'' [] =
     (Inr None, [CallEv ''cfx_getTransactionByHash'' [ArgHash ''0xabc'']])
   \<and> tick client0 ''erc20'' ''0xabc'' emptyResult [] =
     (Some (Panicked NilDereference), emptyResult,
      [CallEv ''cfx_getTransactionByHash'' [ArgHash ''0xabc'']])"
  by code_simp

text \<open>
  C9, as the code has it.  The timer the polling loop waits on is set to one hour when
  no option is given or the option's timeout is 0, and to the option's timeout
  otherwise; that is the timer of every deployment that got as far as recording a
  transaction hash.  When the timeout case fires in the polling loop, the goroutine
  returns with an error that names the instant read from the timer's channel (the
  \<^verbatim>\<open>time.Time\<close> at which the timer fired, lines 807-808) and the transaction hash;
  the elapsed duration is not part of the error.
\<close>

theorem deploy_timeout:
  "deployTimeout None = 3600 * Second
   \<and> (Timeout opt = 0 \<longrightarrow> deployTimeout (Some opt) = 3600 * Second)
   \<and> (Timeout opt \<noteq> 0 \<longrightarrow> deployTimeout (Some opt) = Timeout opt)
   \<and> (TransactionHash (result
          (DeployContract ext lib client' option abiJSON bytecode params cases w)) \<noteq> None \<longrightarrow>
        timeoutAfter (DeployContract ext lib client' option abiJSON bytecode params cases w) =
          Some (deployTimeout option))
   \<and> poll client abi' txhash (TimeoutCase t # rest) res v =
       (Returned,
        res\<lparr>Error := Some (ErrorNew (Sprintf ''deploy contract time out after %v, txhash is %+v''
                              [VTime t, VString txhash]))\<rparr>, v)"
proof -
  have "TransactionHash (result
          (DeployContract ext lib client' option abiJSON bytecode params cases w)) \<noteq> None \<longrightarrow>
        timeoutAfter (DeployContract ext lib client' option abiJSON bytecode params cases w) =
          Some (deployTimeout option)"
    by (auto simp: DeployContract_def finish_def emptyResult_def Let_def
        split: sum.splits prod.splits failure.splits option.splits if_splits)
  then show ?thesis by (simp add: deployTimeout_def)
qed

theorem deploy_timeout_witness:
  "deployTimeout (Some fiveSeconds) = 5 * Second
   \<and> deployTimeout (Some (fiveSeconds\<lparr>Timeout := 0\<rparr>)) = 3600 * Second
   \<and> timeoutAfter (DeployContract mainnet abiLib (Some clientPending) (Some fiveSeconds) []
        [1, 2] [] [TickerCase, TickerCase, TimeoutCase 99] []) = Some (5 * Second)
   \<and> Error (result (DeployContract mainnet abiLib (Some clientPending) (Some fiveSeconds) []
        [1, 2] [] [TickerCase, TickerCase, TimeoutCase 99] [])) =
       Some (ErrorNew (Sprintf ''deploy contract time out after %v, txhash is %+v''
                         [VTime 99, VString ''0xabc'']))"
proof -
  let ?d = "DeployContract mainnet abiLib (Some clientPending) (Some fiveSeconds) []
        [1, 2] [] [TickerCase, TickerCase, TimeoutCase 99] []"
  have five: "Timeout fiveSeconds \<noteq> 0" "Timeout fiveSeconds = 5 * Second"
    by (simp_all add: fiveSeconds_def Second_def Millisecond_def)
  have zero: "Timeout (fiveSeconds\<lparr>Timeout := 0\<rparr>) = 0"
    by simp
  have hash: "TransactionHash (result ?d) \<noteq> None"
    by code_simp
  have err: "Error (result ?d) =
       Some (ErrorNew (Sprintf ''deploy contract time out after %v, txhash is %+v''
                         [VTime 99, VString ''0xabc'']))"
    by code_simp
  from deploy_timeout [of fiveSeconds mainnet abiLib "Some clientPending" "Some fiveSeconds" "[]"
      "[1, 2]" "[]" "[TickerCase, TickerCase, TimeoutCase 99]" "[]"] five hash
  have a: "deployTimeout (Some fiveSeconds) = 5 * Second"
    and b: "timeoutAfter ?d = Some (5 * Second)"
    by simp_all
  from deploy_timeout [of "fiveSeconds\<lparr>Timeout := 0\<rparr>"] zero
  have c: "deployTimeout (Some (fiveSeconds\<lparr>Timeout := 0\<rparr>)) = 3600 * Second"
    by blast
  from a b c err show ?thesis by simp
qed

text \<open>
  The timeout error does not name the elapsed duration.  A deployment with a timer of
  five seconds and one with the default timer of one hour, both timing out with the
  instant 99 read from the channel, end with the same error: it formats that instant
  and the transaction hash, and no duration.
\<close>

theorem timeout_error_counterexample:
  "timeoutAfter (DeployContract mainnet abiLib (Some clientPending) (Some fiveSeconds) []
        [1, 2] [] [TickerCase, TickerCase, TimeoutCase 99] []) = Some (5 * Second)
   \<and> timeoutAfter (DeployContract mainnet abiLib (Some clientPending) None []
        [1, 2] [] [TickerCase, TickerCase, TimeoutCase 99] []) = Some (3600 * Second)
   \<and> Error (result (DeployContract mainnet abiLib (Some clientPending) (Some fiveSeconds) []
        [1, 2] [] [TickerCase, TickerCase, TimeoutCase 99] [])) =
       Some (ErrorNew (Sprintf ''deploy contract time out after %v, txhash is %+v''
                         [VTime 99, VString ''0xabc'']))
   \<and> Error (result (DeployContract mainnet abiLib (Some clientPending) None []
        [1, 2] [] [TickerCase, TickerCase, TimeoutCase 99] [])) =
       Some (ErrorNew (Sprintf ''deploy contract time out after %v, txhash is %+v''
                         [VTime 99, VString ''0xabc'']))
   \<and> \<not> namesDuration (ErrorNew (Sprintf ''deploy contract time out after %v, txhash is %+v''
                         [VTime 99, VString ''0xabc'']))"
proof -
  have "timeoutAfter (DeployContract mainnet abiLib (Some clientPending) (Some fiveSeconds) []
        [1, 2] [] [TickerCase, TickerCase, TimeoutCase 99] []) = Some (5 * Second)"
    by code_simp
  moreover have "timeoutAfter (DeployContract mainnet abiLib (Some clientPending) None []
        [1, 2] [] [TickerCase, TickerCase, TimeoutCase 99] []) = Some (3600 * Second)"
    by code_simp
  moreover have "Error (result (DeployContract mainnet abiLib (Some clientPending) (Some fiveSeconds) []
        [1, 2] [] [TickerCase, TickerCase, TimeoutCase 99] [])) =
       Some (ErrorNew (Sprintf ''deploy contract time out after %v, txhash is %+v''
                         [VTime 99, VString ''0xabc'']))"
    by code_simp
  moreover have "Error (result (DeployContract mainnet abiLib (Some clientPending) None []
        [1, 2] [] [TickerCase, TickerCase, TimeoutCase 99] [])) =
       Some (ErrorNew (Sprintf ''deploy contract time out after %v, txhash is %+v''
                         [VTime 99, VString ''0xabc'']))"
    by code_simp
  moreover have "\<not> namesDuration (ErrorNew (Sprintf ''deploy contract time out after %v, txhash is %+v''
                         [VTime 99, VString ''0xabc'']))"
    by simp
  ultimately show ?thesis by blast
qed

subsection \<open>Outcomes\<close>

lemma tick_result:
  assumes "tick client abi' txhash res w = (g, res', w')"
  shows "(g = None \<and> res' = res) \<or> (\<exists>p. g = Some (Panicked p) \<and> res' = res)
       \<or> (g = Some Returned \<and> (\<exists>e. res' = res\<lparr>Error := Some e\<rparr>))
       \<or> (g = Some Returned \<and> (\<exists>c. res' = res\<lparr>DeployedContract := Some c\<rparr>))"
  using assms
  by (auto simp: tick_def split: prod.splits sum.splits failure.splits option.splits if_splits)

lemma poll_result:
  assumes "poll client abi' txhash cases res w = (g, res', w')"
  shows "(g = Waiting \<and> res' = res) \<or> (\<exists>p. g = Panicked p \<and> res' = res)
       \<or> (g = Returned \<and> (\<exists>e. res' = res\<lparr>Error := Some e\<rparr>))
       \<or> (g = Returned \<and> (\<exists>c. res' = res\<lparr>DeployedContract := Some c\<rparr>))"
  using assms
proof (induction cases arbitrary: res w)
  case Nil
  then show ?case by simp
next
  case (Cons c cases)
  show ?case
  proof (cases c)
    case (TimeoutCase t)
    with Cons.prems show ?thesis by auto
  next
    case TickerCase
    obtain g1 res1 w1 where t: "tick client abi' txhash res w = (g1, res1, w1)"
      by (metis prod_cases3)
    show ?thesis
    proof (cases g1)
      case None
      with t tick_result[OF t] have "res1 = res" by auto
      with Cons.prems TickerCase t None Cons.IH[of res w1] show ?thesis by simp
    next
      case (Some g')
      with Cons.prems TickerCase t tick_result[OF t] show ?thesis by auto
    qed
  qed
qed

lemma DeployContract_cases:
  "(\<exists>e w'. DeployContract ext lib client' option abiJSON bytecode params cases w =
       finish Returned (emptyResult\<lparr>Error := Some e\<rparr>) None None w')
   \<or> (\<exists>p w'. DeployContract ext lib client' option abiJSON bytecode params cases w =
       finish (Panicked p) emptyResult None None w')
   \<or> (\<exists>client abi' txhash w1.
        DeployContract ext lib client' option abiJSON bytecode params cases w =
          (case poll client abi' txhash cases (emptyResult\<lparr>TransactionHash := Some txhash\<rparr>) w1 of
             (g, res, w2) \<Rightarrow>
               finish g res (Some (deployTimeout option)) (Some (2000 * Millisecond)) w2))"
proof (cases "UnmarshalJSON lib abiJSON")
  case (Inl e)
  then have "DeployContract ext lib client' option abiJSON bytecode params cases w =
      finish Returned (emptyResult\<lparr>Error := Some (WrapError e
        (Sprintf ''unmarshal json {%+v} to ABI error'' [VBytes abiJSON]))\<rparr>) None None w"
    by (simp add: DeployContract_def)
  then show ?thesis by blast
next
  case (Inr abi')
  note abi = this
  let ?tx = "(case option of None \<Rightarrow> zeroUnsignedTransaction
              | Some opt \<Rightarrow> withBase zeroUnsignedTransaction (optionBase opt))"
  let ?code = "(if 0 < length params
                then (case Pack lib abi' [] params of Inl e \<Rightarrow> Inl e | Inr input \<Rightarrow> Inr (bytecode @ input))
                else Inr bytecode)"
  show ?thesis
  proof (cases ?code)
    case (Inl e)
    then have "DeployContract ext lib client' option abiJSON bytecode params cases w =
        finish Returned (emptyResult\<lparr>Error := Some (WrapError e
          (Sprintf ''encode constrctor with args %+v error'' [VArgs params]))\<rparr>) None None w"
      using abi by (simp add: DeployContract_def Let_def)
    then show ?thesis by blast
  next
    case (Inr bytecode')
    note code = this
    obtain r tx1 w1 where st: "SendTransaction ext client' (?tx\<lparr>Data := bytecode'\<rparr>) w = (r, tx1, w1)"
      by (metis prod_cases3)
    show ?thesis
    proof (cases r)
      case (Inl f)
      show ?thesis
      proof (cases f)
        case (Err e)
        then have "DeployContract ext lib client' option abiJSON bytecode params cases w =
            finish Returned (emptyResult\<lparr>Error := Some (WrapError e
              (Sprintf ''send transaction {%+v} error'' [VTx tx1]))\<rparr>) None None w1"
          using abi code st Inl by (simp add: DeployContract_def Let_def)
        then show ?thesis by blast
      next
        case (Panic p)
        then have "DeployContract ext lib client' option abiJSON bytecode params cases w =
            finish (Panicked p) emptyResult None None w1"
          using abi code st Inl by (simp add: DeployContract_def Let_def)
        then show ?thesis by blast
      qed
    next
      case (Inr txhash)
      show ?thesis
      proof (cases client')
        case None
        then have "DeployContract ext lib client' option abiJSON bytecode params cases w =
            finish (Panicked NilDereference) emptyResult None None w1"
          using abi code st Inr by (simp add: DeployContract_def Let_def)
        then show ?thesis by blast
      next
        case (Some client)
        have "DeployContract ext lib client' option abiJSON bytecode params cases w =
          (case poll client abi' txhash cases (emptyResult\<lparr>TransactionHash := Some txhash\<rparr>) w1 of
             (g, res, w2) \<Rightarrow>
               finish g res (Some (deployTimeout option)) (Some (2000 * Millisecond)) w2)"
          using abi code st Inr Some by (simp add: DeployContract_def Let_def)
        then show ?thesis by blast
      qed
    qed
  qed
qed

text \<open>
  A goroutine that returns has stored either a contract or an error, never both and
  never neither, and its deferred function has sent once and then closed the channel.
\<close>

lemma returned_exactly_one:
  assumes "ending (DeployContract ext lib client' option abiJSON bytecode params cases w) = Returned"
  shows "(DeployedContract (result
            (DeployContract ext lib client' option abiJSON bytecode params cases w)) = None)
         \<noteq> (Error (result
            (DeployContract ext lib client' option abiJSON bytecode params cases w)) = None)
       \<and> doneChan (DeployContract ext lib client' option abiJSON bytecode params cases w) =
           [ChanSend, ChanClose]"
proof -
  let ?d = "DeployContract ext lib client' option abiJSON bytecode params cases w"
  from DeployContract_cases[of ext lib client' option abiJSON bytecode params cases w]
  consider (failed) e w' where "?d = finish Returned (emptyResult\<lparr>Error := Some e\<rparr>) None None w'"
    | (panicked) p w' where "?d = finish (Panicked p) emptyResult None None w'"
    | (polled) client abi' txhash w1 where "?d =
          (case poll client abi' txhash cases (emptyResult\<lparr>TransactionHash := Some txhash\<rparr>) w1 of
             (g, res, w2) \<Rightarrow>
               finish g res (Some (deployTimeout option)) (Some (2000 * Millisecond)) w2)"
    by blast
  then show ?thesis
  proof cases
    case failed
    then show ?thesis by (simp add: finish_def emptyResult_def)
  next
    case panicked
    with assms show ?thesis by (simp add: finish_def)
  next
    case polled
    obtain g res w2 where p: "poll client abi' txhash cases
        (emptyResult\<lparr>TransactionHash := Some txhash\<rparr>) w1 = (g, res, w2)"
      by (metis prod_cases3)
    with polled have d: "?d = finish g res (Some (deployTimeout option)) (Some (2000 * Millisecond)) w2"
      by simp
    with assms have g: "g = Returned" by (simp add: finish_def)
    from poll_result[OF p] g
    have "(\<exists>e. res = emptyResult\<lparr>TransactionHash := Some txhash, Error := Some e\<rparr>)
        \<or> (\<exists>c. res = emptyResult\<lparr>TransactionHash := Some txhash, DeployedContract := Some c\<rparr>)"
      by auto
    then show ?thesis using d g by (auto simp: finish_def emptyResult_def)
  qed
qed

text \<open>
  C10 fails on the code.  A deployment whose first tick finds the transaction absent
  ends in none of the four terminal states: the goroutine panics at line 820 with
  neither a contract nor an error stored; the deferred function still sends and closes,
  and the unrecovered panic then ends the process.
\<close>

theorem deployment_without_outcome:
  "ending (DeployContract mainnet abiLib (Some client0) None [] [1, 2] [] [TickerCase] []) =
     Panicked NilDereference
   \<and> DeployedContract (result
       (DeployContract mainnet abiLib (Some client0) None [] [1, 2] [] [TickerCase] [])) = None
   \<and> Error (result
       (DeployContract mainnet abiLib (Some client0) None [] [1, 2] [] [TickerCase] [])) = None
   \<and> TransactionHash (result
       (DeployContract mainnet abiLib (Some client0) None [] [1, 2] [] [TickerCase] [])) =
       Some ''0xabc''
   \<and> doneChan (DeployContract mainnet abiLib (Some client0) None [] [1, 2] [] [TickerCase] []) =
       [ChanSend, ChanClose]"
  by code_simp

section \<open>Properties of the batch revert-risk calculation\<close>

subsection \<open>The first loop\<close>


lemma length_nilRisks [simp]: "length (nilRisks blockhashs is rs) = length rs"
  unfolding nilRisks_def by (induction "is" arbitrary: rs) simp_all





subsection \<open>Decoding replies through the result pointers\<close>

lemma length_store [simp]:
  "length (risks (store p v m)) = length (risks m)"
  "length (summarys (store p v m)) = length (summarys m)"
  by (induction p v m rule: store.induct) simp_all

lemma length_writeResults [simp]:
  "length (risks (writeResults b vs m)) = length (risks m)"
  "length (summarys (writeResults b vs m)) = length (summarys m)"
  by (induction b vs m rule: writeResults.induct) simp_all





lemma length_summarys_foldl [simp]:
  "length (summarys (foldl (\<lambda>m' vs. writeResults b vs m') m written)) = length (summarys m)"
  by (induction written arbitrary: m) simp_all

lemma length_risks_foldl [simp]:
  "length (risks (foldl (\<lambda>m' vs. writeResults b vs m') m written)) = length (risks m)"
  by (induction written arbitrary: m) simp_all


subsection \<open>The fallback never returns risks\<close>




text \<open>
  The risks the fallback writes are decimal numerals (\<^verbatim>\<open>String()\<close>, lines 944 and 946),
  which line 959 could not decode either.
\<close>

lemma decimal_risk_not_hex:
  "ratesOf [BigString 0] =
     Inl (Err (WrapError (ErrorNew (Sprintf ''hex string without 0x prefix'' []))
            (Sprintf ''create big int by risk value %v error'' [VString ''0''])))"
  by code_simp

text \<open>
  C1 fails on the code.  The risk query for block \<^verbatim>\<open>0x02\<close> comes back empty and the
  fallback fetches its summary.  Whether the summary has an epoch number (first run,
  where the claim says rate 0.0) or not (second run, rate 1.0), the call returns no
  rate at all: it panics with an index out of range at \<^verbatim>\<open>summarys[1]\<close>, after sending
  a second batch of two elements, the first of them empty.
\<close>

theorem fallback_panics: "BatchGetBlockRevertRates (clientOf (node pivotBlocks noTxs) None) [Some ''0x02''] [] =
     (Inl (Panic (IndexOutOfRange 1 1)),
      [BatchEv [riskElem ''0x02'' 0], BatchEv [zeroBatchElem, summaryElem ''0x02'' 0]])
   \<and> BatchGetBlockRevertRates (clientOf (node orphanBlocks noTxs) None) [Some ''0x02''] [] =
     (Inl (Panic (IndexOutOfRange 1 1)),
      [BatchEv [riskElem ''0x02'' 0], BatchEv [zeroBatchElem, summaryElem ''0x02'' 0]])"
  by (simp add: BatchGetBlockRevertRates_def riskStep_def BatchCallRPC_def requester_BatchCall_def
      clientOf_def node_def inner_BatchCall_def answer_def replyOf_def riskElem_def
      requests_def fallback_def summaryElem_def zeroBatchElem_def zeroBlockSummary_def
      pivotBlocks_def orphanBlocks_def Let_def upt_rec[of 0 "Suc _"])

subsection \<open>What a requester does with a batch\<close>

lemma sentOnly_refl: "sentOnly b w w"
  by (simp add: sentOnly_def)





subsection \<open>The largest risk on the wire\<close>













subsection \<open>Successful calls\<close>
















end
